theory Spec2Isabelle
  imports Main "HOL-Library.Sublist"
begin

section \<open>JavaScript values used by the Spotify service\<close>

text \<open>
  Strings are character lists. \<open>toLowerCase\<close> maps the letters \<open>A\<close> to \<open>Z\<close> to
  \<open>a\<close> to \<open>z\<close> and leaves every other character alone, which is what
  \<^verbatim>\<open>String.prototype.toLowerCase\<close> does on ASCII text; none of the properties below
  depends on which characters it changes. Numbers (\<^verbatim>\<open>Date.now()\<close>, \<^verbatim>\<open>expires_in\<close>,
  the limits) are integers.
\<close>

definition toLowerCase_char :: "char \<Rightarrow> char" where
  "toLowerCase_char c =
     (let n = (of_char c :: nat) in if 65 \<le> n \<and> n \<le> 90 then char_of (n + 32) else c)"

definition toLowerCase :: "string \<Rightarrow> string" where
  "toLowerCase s = map toLowerCase_char s"

text \<open>\<^verbatim>\<open>s.includes(kw)\<close>: \<open>kw\<close> occurs in \<open>s\<close> as a contiguous run.\<close>

fun includes_str :: "string \<Rightarrow> string \<Rightarrow> bool" where
  "includes_str [] kw = (kw = [])"
| "includes_str (c # cs) kw = (prefix kw (c # cs) \<or> includes_str cs kw)"

text \<open>\<^verbatim>\<open>xs.join(sep)\<close> on an array of strings.\<close>

fun join :: "string \<Rightarrow> string list \<Rightarrow> string" where
  "join sep [] = []"
| "join sep [x] = x"
| "join sep (x # y # ys) = x @ sep @ join sep (y # ys)"

text \<open>
  Truthiness of a value that is \<^verbatim>\<open>null\<close>/\<^verbatim>\<open>undefined\<close> or a string: only a
  non-empty string is truthy.
\<close>

fun truthy :: "string option \<Rightarrow> bool" where
  "truthy None = False"
| "truthy (Some s) = (s \<noteq> [])"

subsection \<open>The block list\<close>

definition BLOCKED_KEYWORDS :: "string list" where
  "BLOCKED_KEYWORDS = [
  ''happy birthday'',
  ''acoustic'', ''afrobeat'', ''alt-rock'', ''alternative'', ''ambient'', ''anime'',
  ''black-metal'', ''bluegrass'', ''blues'', ''bossanova'', ''brazil'', ''breakbeat'',
  ''british'', ''cantopop'', ''chicago-house'', ''children'', ''chill'', ''classical'',
  ''club'', ''comedy'', ''country'', ''dance'', ''dancehall'', ''death-metal'',
  ''deep-house'', ''detroit-techno'', ''disco'', ''disney'', ''drum-and-bass'', ''dub'',
  ''dubstep'', ''edm'', ''electro'', ''electronic'', ''emo'', ''folk'', ''forro'', ''french'',
  ''funk'', ''garage'', ''german'', ''gospel'', ''goth'', ''grindcore'', ''groove'',
  ''grunge'', ''guitar'', ''happy'', ''hard-rock'', ''hardcore'', ''hardstyle'',
  ''heavy-metal'', ''hip-hop'', ''holidays'', ''honky-tonk'', ''house'', ''idm'',
  ''indian'', ''indie'', ''indie-pop'', ''industrial'', ''iranian'', ''j-dance'',
  ''j-idol'', ''j-pop'', ''j-rock'', ''jazz'', ''k-pop'', ''kids'', ''latin'', ''latino'',
  ''malay'', ''mandopop'', ''metal'', ''metal-misc'', ''metalcore'', ''minimal-techno'',
  ''movies'', ''mpb'', ''new-age'', ''new-release'', ''opera'', ''pagode'', ''party'',
  ''philippines-opm'', ''piano'', ''pop'', ''pop-film'', ''post-dubstep'', ''power-pop'',
  ''progressive-house'', ''psych-rock'', ''punk'', ''punk-rock'', ''r-n-b'', ''rainy-day'',
  ''reggae'', ''reggaeton'', ''road-trip'', ''rock'', ''rock-n-roll'', ''rockabilly'',
  ''romance'', ''sad'', ''salsa'', ''samba'', ''sertanejo'', ''show-tunes'',
  ''singer-songwriter'', ''ska'', ''sleep'', ''songwriter'', ''soul'', ''soundtracks'',
  ''spanish'', ''study'', ''summer'', ''swedish'', ''synth-pop'', ''tango'', ''techno'',
  ''trance'', ''trip-hop'', ''turkish'', ''work-out'', ''world-music'']"

text \<open>\<^verbatim>\<open>BLOCKED_KEYWORDS.some((kw) => name.includes(kw))\<close>\<close>

definition some_blocked :: "string \<Rightarrow> bool" where
  "some_blocked name = list_ex (\<lambda>kw. includes_str name kw) BLOCKED_KEYWORDS"

subsection \<open>Upstream track items and Track records\<close>

text \<open>
  The track object of a playlist item, as far as the service reads it: \<^verbatim>\<open>id\<close> (may be
  missing), \<^verbatim>\<open>name\<close>, the names of \<^verbatim>\<open>artists\<close>, \<^verbatim>\<open>external_urls.spotify\<close>,
  \<^verbatim>\<open>preview_url\<close> (may be \<^verbatim>\<open>null\<close>) and the urls of \<^verbatim>\<open>album.images\<close>. An item's
  \<^verbatim>\<open>track\<close> may be \<^verbatim>\<open>null\<close>.
\<close>

record spotify_track =
  t_id :: "string option"
  t_name :: string
  t_artists :: "string list"
  t_external_urls_spotify :: string
  t_preview_url :: "string option"
  t_album_images :: "string list"

record item =
  track :: "spotify_track option"

record Track =
  track_id :: string
  title :: string
  artist :: string
  url :: string
  preview_url :: "string option"
  albumImageUrl :: string

text \<open>\<^verbatim>\<open>t.album.images[0]?.url || ''\<close>\<close>

fun first_image_url :: "string list \<Rightarrow> string" where
  "first_image_url [] = []"
| "first_image_url (u # us) = u"

text \<open>The object literal pushed for a track \<open>t\<close> whose id is \<open>i\<close>.\<close>

definition mkTrack :: "string \<Rightarrow> spotify_track \<Rightarrow> Track" where
  "mkTrack i t =
     \<lparr> track_id = i,
       title = t_name t,
       artist = join '', '' (t_artists t),
       url = t_external_urls_spotify t,
       preview_url = t_preview_url t,
       albumImageUrl = first_image_url (t_album_images t) \<rparr>"

text \<open>
  The body of the \<^verbatim>\<open>forEach\<close> callback: skip an item without a truthy track id, skip a
  blocked name, otherwise push the Track onto the shared \<^verbatim>\<open>tracks\<close> array.
\<close>

definition forEach_body :: "Track list \<Rightarrow> item \<Rightarrow> Track list" where
  "forEach_body tracks it =
     (case track it of
        None \<Rightarrow> tracks
      | Some t \<Rightarrow>
          (case t_id t of
             None \<Rightarrow> tracks
           | Some i \<Rightarrow>
               if i = [] then tracks
               else let name = toLowerCase (t_name t) in
                 if some_blocked name then tracks
                 else tracks @ [mkTrack i t]))"

definition forEach_items :: "Track list \<Rightarrow> item list \<Rightarrow> Track list" where
  "forEach_items tracks items = foldl forEach_body tracks items"

subsection \<open>The JavaScript \<open>Map\<close>\<close>

text \<open>
  A \<^verbatim>\<open>Map\<close> keeps its entries in insertion order. \<^verbatim>\<open>set\<close> on a key that is present
  replaces the value and leaves the entry where it is; on a new key it appends the entry.
\<close>

type_synonym ('k, 'v) js_map = "('k \<times> 'v) list"

fun Map_set :: "('k, 'v) js_map \<Rightarrow> 'k \<Rightarrow> 'v \<Rightarrow> ('k, 'v) js_map" where
  "Map_set [] k v = [(k, v)]"
| "Map_set ((k', v') # m) k v = (if k' = k then (k, v) # m else (k', v') # Map_set m k v)"

definition Map_get :: "('k, 'v) js_map \<Rightarrow> 'k \<Rightarrow> 'v option" where
  "Map_get m k = map_of m k"

definition Map_has :: "('k, 'v) js_map \<Rightarrow> 'k \<Rightarrow> bool" where
  "Map_has m k = (Map_get m k \<noteq> None)"

text \<open>\<^verbatim>\<open>new Map(entries)\<close> sets the entries one after the other.\<close>

definition new_Map :: "('k \<times> 'v) list \<Rightarrow> ('k, 'v) js_map" where
  "new_Map entries = foldl (\<lambda>m (k, v). Map_set m k v) [] entries"

definition Map_values :: "('k, 'v) js_map \<Rightarrow> 'v list" where
  "Map_values m = map snd m"

text \<open>\<^verbatim>\<open>Array.from(new Map(tracks.map((t) => [t.id, t])).values())\<close>\<close>

definition uniqueTracks :: "Track list \<Rightarrow> Track list" where
  "uniqueTracks tracks = Map_values (new_Map (map (\<lambda>t. (track_id t, t)) tracks))"

section \<open>The production service\<close>

subsection \<open>Network, clock and module state\<close>

text \<open>
  An axios failure carries a message and, when the server answered, the response's status
  and the \<^verbatim>\<open>message\<close> field of its body.
\<close>

record http_response =
  status :: int
  data_message :: "string option"

datatype axios_error = AxiosError string "http_response option"

text \<open>
  What a \<^verbatim>\<open>catch\<close> receives and a rejected promise carries: a new \<^verbatim>\<open>Error\<close>, an
  axios failure thrown on, or the \<^verbatim>\<open>TypeError\<close> of reading a property of \<^verbatim>\<open>null\<close> or
  calling what is not a function.
\<close>

datatype js_error = Error string | Thrown axios_error | TypeError string

text \<open>
  The requests the services send. A search carries the Authorization header, \<^verbatim>\<open>q\<close>,
  \<^verbatim>\<open>limit\<close> and \<^verbatim>\<open>market\<close>; a playlist request carries the header, the playlist id,
  \<^verbatim>\<open>limit\<close> and \<^verbatim>\<open>market\<close>. The requests to the proxy under \<^verbatim>\<open>/api/spotify\<close> carry
  the same parameters and no header.
\<close>

datatype request =
    POST_spotify_auth
  | GET_search string string int string
  | GET_playlist_tracks string string int string
  | GET_api_search string int string
  | GET_api_playlist_tracks string int string

record auth_data =
  access_token :: string
  expires_in :: int

record playlist =
  pl_id :: "string option"

text \<open>
  The value of \<^verbatim>\<open>searchData.playlists?.items\<close>: \<^verbatim>\<open>undefined\<close> or \<^verbatim>\<open>null\<close>
  (\<open>No_items\<close>), an array, whose elements may be \<^verbatim>\<open>null\<close> (\<open>Items\<close>), or any other
  value, of which only the truthiness matters (\<open>Not_an_array\<close>).
\<close>

datatype items_value = No_items | Items "playlist option list" | Not_an_array bool

text \<open>
  The body of a search response. The response itself may come with the body \<^verbatim>\<open>null\<close>:
  the world answers a search with \<open>Inr None\<close> then. \<open>items\<close> of a playlist response is
  \<^verbatim>\<open>trackData.items\<close> when that is an array and \<open>None\<close> otherwise; a body \<^verbatim>\<open>null\<close>
  and an \<^verbatim>\<open>items\<close> that is no array both end in the callback's own \<^verbatim>\<open>catch\<close> and add
  nothing, as a missing \<^verbatim>\<open>items\<close> does.
\<close>

record search_data =
  playlists_items :: items_value

record track_data =
  items :: "item list option"

text \<open>
  What one call meets outside the program: the two readings of \<^verbatim>\<open>Date.now()\<close> in
  \<^verbatim>\<open>authenticateSpotify\<close>, the answer to each request (the answer to a playlist
  request may depend on the position of the playlist in the search result, so that two
  requests for one id can end differently), and the order in which the playlist responses
  arrive: \<open>completion\<close> lists positions, earliest first, and the positions it leaves out
  arrive after those, in ascending order.
\<close>

record world =
  Date_now_check :: int
  Date_now_store :: int
  post_auth :: "axios_error + auth_data"
  get_search :: "request \<Rightarrow> axios_error + search_data option"
  get_tracks :: "nat \<Rightarrow> request \<Rightarrow> axios_error + track_data"
  completion :: "nat list"

definition completion_order :: "world \<Rightarrow> nat \<Rightarrow> nat list" where
  "completion_order w n =
     filter (\<lambda>i. i < n) (remdups (completion w)) @
     filter (\<lambda>i. i \<notin> set (completion w)) [0..<n]"

text \<open>
  An array the service returns is an object: \<open>ref\<close> is its identity, \<open>elems\<close> its
  contents. The service never changes an array after creating it.
\<close>

record js_array =
  ref :: nat
  elems :: "Track list"

text \<open>
  The module's variables, the number of arrays created so far and the requests sent so
  far (oldest first).
\<close>

record state =
  accessToken :: "string option"
  tokenExpiresAt :: int
  cache :: "(string, js_array) js_map"
  allocated :: nat
  network :: "request list"

definition initial_state :: state where
  "initial_state =
     \<lparr> accessToken = None, tokenExpiresAt = 0, cache = [], allocated = 0, network = [] \<rparr>"

definition new_array :: "state \<Rightarrow> Track list \<Rightarrow> js_array \<times> state" where
  "new_array s xs = (\<lparr> ref = allocated s, elems = xs \<rparr>, s\<lparr>allocated := allocated s + 1\<rparr>)"

definition send :: "state \<Rightarrow> request list \<Rightarrow> state" where
  "send s reqs = s\<lparr>network := network s @ reqs\<rparr>"

subsection \<open>\<open>authenticateSpotify\<close>\<close>

definition token_valid :: "world \<Rightarrow> state \<Rightarrow> bool" where
  "token_valid w s \<longleftrightarrow>
     truthy (accessToken s) \<and> Date_now_check w < tokenExpiresAt s - 60 * 1000"

definition authenticateSpotify :: "world \<Rightarrow> state \<Rightarrow> (js_error + string option) \<times> state" where
  "authenticateSpotify w s =
     (if token_valid w s then (Inr (accessToken s), s)
      else
        let s1 = send s [POST_spotify_auth] in
        case post_auth w of
          Inl err \<Rightarrow> (Inl (Error ''Spotify authentication failed''), s1)
        | Inr data \<Rightarrow>
            let s2 = s1\<lparr>accessToken := Some (access_token data)\<rparr>;
                s3 = s2\<lparr>tokenExpiresAt := Date_now_store w + expires_in data * 1000\<rparr>
            in (Inr (accessToken s3), s3))"

subsection \<open>\<open>fetchSongsByMood\<close>\<close>

text \<open>\<^verbatim>\<open>`Bearer ${accessToken}`\<close>\<close>

definition Authorization :: "state \<Rightarrow> string" where
  "Authorization s = ''Bearer '' @ (case accessToken s of None \<Rightarrow> ''null'' | Some t \<Rightarrow> t)"

text \<open>\<^verbatim>\<open>pl?.id\<close> when it is truthy.\<close>

fun truthy_id :: "playlist option \<Rightarrow> string option" where
  "truthy_id None = None"
| "truthy_id (Some pl) =
     (case pl_id pl of None \<Rightarrow> None | Some i \<Rightarrow> if i = [] then None else Some i)"

text \<open>
  Each callback of \<^verbatim>\<open>playlists.map\<close> runs up to its \<^verbatim>\<open>await\<close> at once: a playlist
  without id sends nothing, every other sends its request, in the order of the array.
\<close>

definition track_requests ::
  "string \<Rightarrow> string \<Rightarrow> int \<Rightarrow> playlist option list \<Rightarrow> request list" where
  "track_requests headers market trackLimit playlists =
     List.map_filter
       (\<lambda>pl. map_option (\<lambda>i. GET_playlist_tracks headers i trackLimit market) (truthy_id pl))
       playlists"

text \<open>
  The rest of the callback for the playlist at position \<open>i\<close>, run when its response
  arrives: push the tracks of a successful response, warn about a failed one.
\<close>

definition playlist_callback ::
  "world \<Rightarrow> string \<Rightarrow> string \<Rightarrow> int \<Rightarrow> playlist option list \<Rightarrow> Track list \<Rightarrow> nat \<Rightarrow> Track list"
where
  "playlist_callback w headers market trackLimit playlists tracks i =
     (case truthy_id (playlists ! i) of
        None \<Rightarrow> tracks
      | Some pid \<Rightarrow>
          (case get_tracks w i (GET_playlist_tracks headers pid trackLimit market) of
             Inl innerErr \<Rightarrow> tracks
           | Inr trackData \<Rightarrow>
               forEach_items tracks (case items trackData of None \<Rightarrow> [] | Some its \<Rightarrow> its)))"

text \<open>
  The result is \<open>Inl\<close> for a rejected promise and \<open>Inr\<close> for the array the promise
  resolves with. The test \<^verbatim>\<open>cache.has(key)\<close> and the read \<^verbatim>\<open>cache.get(key)\<close> are the
  two cases of \<open>Map_get\<close>. The \<^verbatim>\<open>catch\<close> of the outer \<^verbatim>\<open>try\<close> logs the error and
  returns a new empty array; it is reached when the search request fails and when the
  response has the body \<^verbatim>\<open>null\<close>, so that \<^verbatim>\<open>searchData.playlists\<close> throws.
  \<^verbatim>\<open>authenticateSpotify\<close> is awaited before the \<^verbatim>\<open>try\<close>. The parameters \<open>market\<close>, \<open>playlistLimit\<close> and \<open>trackLimit\<close> are
  the values after the defaults have been filled in.
\<close>

text \<open>\<^verbatim>\<open>`${mood}_${market}`\<close>\<close>

definition key_of :: "string \<Rightarrow> string \<Rightarrow> string" where
  "key_of mood market = mood @ ''_'' @ market"

text \<open>\<^verbatim>\<open>catch (err) { console.error(...); return []; }\<close>\<close>

definition catch_return_empty :: "state \<Rightarrow> (js_error + js_array) \<times> state" where
  "catch_return_empty s = (let (a, s') = new_array s [] in (Inr a, s'))"

definition fetchSongsByMood ::
  "world \<Rightarrow> string \<Rightarrow> string \<Rightarrow> int \<Rightarrow> int \<Rightarrow> state \<Rightarrow> (js_error + js_array) \<times> state"
where
  "fetchSongsByMood w mood market playlistLimit trackLimit s =
     (let key = key_of mood market in
      case Map_get (cache s) key of
        Some a \<Rightarrow> (Inr a, s)
      | None \<Rightarrow>
          (case authenticateSpotify w s of
             (Inl e, s1) \<Rightarrow> (Inl e, s1)
           | (Inr tok, s1) \<Rightarrow>
               let headers = Authorization s1;
                   req = GET_search headers mood playlistLimit market;
                   s2 = send s1 [req]
               in
               (case get_search w req of
                  Inl err \<Rightarrow> catch_return_empty s2
                | Inr None \<Rightarrow> catch_return_empty s2
                | Inr (Some searchData) \<Rightarrow>
                    let playlists =
                          (case playlists_items searchData of
                             Items ps \<Rightarrow> ps | No_items \<Rightarrow> [] | Not_an_array b \<Rightarrow> []);
                        s3 = send s2 (track_requests headers market trackLimit playlists);
                        tracks =
                          foldl (playlist_callback w headers market trackLimit playlists) []
                            (completion_order w (length playlists));
                        (a, s4) = new_array s3 (uniqueTracks tracks);
                        s5 = s4\<lparr>cache := Map_set (cache s4) key a\<rparr>
                    in (Inr a, s5))))"

text \<open>A call that leaves out the optional arguments.\<close>

definition fetchSongsByMood_default :: "world \<Rightarrow> string \<Rightarrow> state \<Rightarrow> (js_error + js_array) \<times> state" where
  "fetchSongsByMood_default w mood s = fetchSongsByMood w mood ''US'' 5 10 s"

text \<open>The states the program can be in: any number of calls after it was loaded.\<close>

inductive calls :: "state \<Rightarrow> state \<Rightarrow> bool" where
  no_call: "calls s s"
| call: "calls s s' \<Longrightarrow> fetchSongsByMood w mood market playlistLimit trackLimit s' = (r, s'')
         \<Longrightarrow> calls s s''"

definition reachable :: "state \<Rightarrow> bool" where
  "reachable s = calls initial_state s"

section \<open>The variant that reports failures\<close>

text \<open>
  A second copy of the production service differs in its error handling:
  \<^verbatim>\<open>authenticateSpotify\<close> tells a configuration error of the auth function from other
  failures, and \<^verbatim>\<open>fetchSongsByMood\<close> calls it inside the \<^verbatim>\<open>try\<close> and throws from
  the \<^verbatim>\<open>catch\<close>.
\<close>

definition authenticateSpotify_part_001 ::
  "world \<Rightarrow> state \<Rightarrow> (js_error + string option) \<times> state" where
  "authenticateSpotify_part_001 w s =
     (if token_valid w s then (Inr (accessToken s), s)
      else
        let s1 = send s [POST_spotify_auth] in
        case post_auth w of
          Inl (AxiosError msg response) \<Rightarrow>
            (case response of
               Some r \<Rightarrow>
                 (case data_message r of
                    Some m \<Rightarrow>
                      if status r = 500 \<and> m \<noteq> []
                      then (Inl (Error (''Spotify configuration error: '' @ m)), s1)
                      else (Inl (Error ''Spotify authentication failed. Please check if Spotify API credentials are configured correctly.''), s1)
                  | None \<Rightarrow> (Inl (Error ''Spotify authentication failed. Please check if Spotify API credentials are configured correctly.''), s1))
             | None \<Rightarrow> (Inl (Error ''Spotify authentication failed. Please check if Spotify API credentials are configured correctly.''), s1))
        | Inr data \<Rightarrow>
            let s2 = s1\<lparr>accessToken := Some (access_token data)\<rparr>;
                s3 = s2\<lparr>tokenExpiresAt := Date_now_store w + expires_in data * 1000\<rparr>
            in (Inr (accessToken s3), s3))"

text \<open>\<^verbatim>\<open>err.message\<close>\<close>

fun message :: "js_error \<Rightarrow> string" where
  "message (Error m) = m"
| "message (Thrown (AxiosError m r)) = m"
| "message (TypeError m) = m"

text \<open>
  The message of the \<^verbatim>\<open>TypeError\<close> for \<^verbatim>\<open>searchData.playlists\<close> on a body
  \<^verbatim>\<open>null\<close>, in the wording of V8; no engine words it with either of the phrases the
  \<^verbatim>\<open>catch\<close> looks for.
\<close>

definition null_read_message :: string where
  "null_read_message =
     ''Cannot read properties of null (reading '' @ [CHR 0x27] @ ''playlists'' @ [CHR 0x27] @ '')''"

text \<open>The \<^verbatim>\<open>catch (err)\<close> block of the variant.\<close>

definition catch_part_001 :: "js_error \<Rightarrow> js_error" where
  "catch_part_001 err =
     (if includes_str (message err) ''configuration error'' \<or>
         includes_str (message err) ''authentication failed''
      then err
      else Error ''Failed to fetch music recommendations. Please try again later.'')"

definition fetchSongsByMood_part_001 ::
  "world \<Rightarrow> string \<Rightarrow> string \<Rightarrow> int \<Rightarrow> int \<Rightarrow> state \<Rightarrow> (js_error + js_array) \<times> state"
where
  "fetchSongsByMood_part_001 w mood market playlistLimit trackLimit s =
     (let key = key_of mood market in
      case Map_get (cache s) key of
        Some a \<Rightarrow> (Inr a, s)
      | None \<Rightarrow>
          (case authenticateSpotify_part_001 w s of
             (Inl e, s1) \<Rightarrow> (Inl (catch_part_001 e), s1)
           | (Inr tok, s1) \<Rightarrow>
               let headers = Authorization s1;
                   req = GET_search headers mood playlistLimit market;
                   s2 = send s1 [req]
               in
               (case get_search w req of
                  Inl err \<Rightarrow> (Inl (catch_part_001 (Thrown err)), s2)
                | Inr None \<Rightarrow> (Inl (catch_part_001 (TypeError null_read_message)), s2)
                | Inr (Some searchData) \<Rightarrow>
                    let playlists =
                          (case playlists_items searchData of
                             Items ps \<Rightarrow> ps | No_items \<Rightarrow> [] | Not_an_array b \<Rightarrow> []);
                        s3 = send s2 (track_requests headers market trackLimit playlists);
                        tracks =
                          foldl (playlist_callback w headers market trackLimit playlists) []
                            (completion_order w (length playlists));
                        (a, s4) = new_array s3 (uniqueTracks tracks);
                        s5 = s4\<lparr>cache := Map_set (cache s4) key a\<rparr>
                    in (Inr a, s5))))"

section \<open>The service behind the proxy\<close>

text \<open>
  A third copy sends its requests to the proxy function and holds no token. Each callback
  of \<^verbatim>\<open>playlists.map\<close> returns the tracks of its playlist, \<^verbatim>\<open>Promise.all\<close> keeps the
  results in the order of the playlists, and \<^verbatim>\<open>flat()\<close> joins them.
\<close>

text \<open>
  The callback of \<^verbatim>\<open>.map(({ track }) => ...)\<close>: \<open>None\<close> stands for \<^verbatim>\<open>null\<close>, which
  \<^verbatim>\<open>.filter(Boolean)\<close> removes.
\<close>

definition map_track :: "item \<Rightarrow> Track option" where
  "map_track it =
     (case track it of
        None \<Rightarrow> None
      | Some t \<Rightarrow>
          (case t_id t of
             None \<Rightarrow> None
           | Some i \<Rightarrow>
               if i = [] \<or> some_blocked (toLowerCase (t_name t)) then None
               else Some (mkTrack i t)))"

definition track_requests_part_003 :: "string \<Rightarrow> int \<Rightarrow> playlist option list \<Rightarrow> request list" where
  "track_requests_part_003 market trackLimit playlists =
     List.map_filter
       (\<lambda>pl. map_option (\<lambda>i. GET_api_playlist_tracks i trackLimit market) (truthy_id pl))
       playlists"

text \<open>What the callback for the playlist at position \<open>i\<close> resolves with.\<close>

definition playlist_tracks_part_003 ::
  "world \<Rightarrow> string \<Rightarrow> int \<Rightarrow> playlist option list \<Rightarrow> nat \<Rightarrow> Track list" where
  "playlist_tracks_part_003 w market trackLimit playlists i =
     (case truthy_id (playlists ! i) of
        None \<Rightarrow> []
      | Some pid \<Rightarrow>
          (case get_tracks w i (GET_api_playlist_tracks pid trackLimit market) of
             Inl error \<Rightarrow> []
           | Inr trackData \<Rightarrow>
               List.map_filter map_track (case items trackData of None \<Rightarrow> [] | Some its \<Rightarrow> its)))"

text \<open>
  \<^verbatim>\<open>searchData.playlists?.items || []\<close> keeps a truthy value that is no array, and
  \<^verbatim>\<open>playlists.map\<close> then throws inside the \<^verbatim>\<open>try\<close>.
\<close>

definition fetchSongsByMood_part_003 ::
  "world \<Rightarrow> string \<Rightarrow> string \<Rightarrow> int \<Rightarrow> int \<Rightarrow> state \<Rightarrow> (js_error + js_array) \<times> state"
where
  "fetchSongsByMood_part_003 w mood market playlistLimit trackLimit s =
     (let cacheKey = key_of mood market in
      case Map_get (cache s) cacheKey of
        Some a \<Rightarrow> (Inr a, s)
      | None \<Rightarrow>
          let req = GET_api_search mood playlistLimit market;
              s1 = send s [req]
          in
          (case get_search w req of
             Inl error \<Rightarrow> catch_return_empty s1
           | Inr None \<Rightarrow> catch_return_empty s1
           | Inr (Some searchData) \<Rightarrow>
               (case playlists_items searchData of
                  Not_an_array True \<Rightarrow> catch_return_empty s1
                | other \<Rightarrow>
                    let playlists = (case other of Items ps \<Rightarrow> ps | No_items \<Rightarrow> []
                                     | Not_an_array b \<Rightarrow> []);
                        s2 = send s1 (track_requests_part_003 market trackLimit playlists);
                        nestedTracks =
                          map (playlist_tracks_part_003 w market trackLimit playlists)
                            [0..<length playlists];
                        tracks = concat nestedTracks;
                        (a, s3) = new_array s2 (uniqueTracks tracks);
                        s4 = s3\<lparr>cache := Map_set (cache s3) cacheKey a\<rparr>
                    in (Inr a, s4))))"

section \<open>The token cache of the proxy function\<close>

text \<open>
  \<^verbatim>\<open>functions/spotify.js\<close> runs in another process and keeps its own token in
  \<^verbatim>\<open>tokenCache\<close>. It reads the clock and posts to the token endpoint of Spotify; the
  world's \<open>post_auth\<close> is the answer to that request.
\<close>

record proxy_state =
  tokenCache_accessToken :: "string option"
  tokenCache_expiresAt :: int
  token_requests :: nat

definition getAccessToken :: "world \<Rightarrow> proxy_state \<Rightarrow> (js_error + string option) \<times> proxy_state" where
  "getAccessToken w p =
     (if truthy (tokenCache_accessToken p) \<and> Date_now_check w < tokenCache_expiresAt p
      then (Inr (tokenCache_accessToken p), p)
      else
        let p1 = p\<lparr>token_requests := token_requests p + 1\<rparr> in
        case post_auth w of
          Inl error \<Rightarrow> (Inl (Error ''Failed to retrieve Spotify access token.''), p1)
        | Inr data \<Rightarrow>
            let p2 = p1\<lparr>tokenCache_accessToken := Some (access_token data)\<rparr>;
                p3 = p2\<lparr>tokenCache_expiresAt := Date_now_store w + (expires_in data - 60) * 1000\<rparr>
            in (Inr (tokenCache_accessToken p3), p3))"

section \<open>Notions of the specification\<close>

text \<open>The elements of a list in the order in which they are first seen.\<close>

fun first_seen :: "'a list \<Rightarrow> 'a list" where
  "first_seen [] = []"
| "first_seen (x # xs) = x # filter (\<lambda>y. y \<noteq> x) (first_seen xs)"

text \<open>The first and the last record of a sequence that carries a given id.\<close>

definition first_with_id :: "Track list \<Rightarrow> string \<Rightarrow> Track option" where
  "first_with_id ts i = find (\<lambda>t. track_id t = i) ts"

definition last_with_id :: "Track list \<Rightarrow> string \<Rightarrow> Track option" where
  "last_with_id ts i = find (\<lambda>t. track_id t = i) (rev ts)"

text \<open>
  The tracks of a playlist as the specification describes them: each item that has an
  identifier becomes a Track record, and a Track is dropped when its title, in lower case,
  contains an entry of the block list as a substring.
\<close>

definition blocked_title :: "string \<Rightarrow> bool" where
  "blocked_title ti \<longleftrightarrow> (\<exists>kw \<in> set BLOCKED_KEYWORDS. sublist kw (toLowerCase ti))"

definition item_Track :: "item \<Rightarrow> Track option" where
  "item_Track it =
     (case track it of
        None \<Rightarrow> None
      | Some t \<Rightarrow>
          (case t_id t of
             None \<Rightarrow> None
           | Some i \<Rightarrow> if i = [] then None else Some (mkTrack i t)))"

definition filtered_tracks :: "item list \<Rightarrow> Track list" where
  "filtered_tracks its = filter (\<lambda>t. \<not> blocked_title (title t)) (List.map_filter item_Track its)"

section \<open>Example responses\<close>

text \<open>
  The end-to-end example of the specification: the search for \<open>happy\<close> finds the
  playlists \<open>p1\<close> and \<open>p2\<close>; \<open>p1\<close> holds \<open>t1\<close> (Happy Birthday Song) and
  \<open>t2\<close> (Sunshine), \<open>p2\<close> holds \<open>t2\<close> again, here without a preview, and \<open>t3\<close>
  (Dance Tonight).
\<close>

definition example_item :: "string \<Rightarrow> string \<Rightarrow> string option \<Rightarrow> item" where
  "example_item i n p =
     \<lparr> track = Some \<lparr> t_id = Some i, t_name = n, t_artists = [''Ann'', ''Bob''],
                      t_external_urls_spotify = ''https://open.spotify.com/track/'' @ i,
                      t_preview_url = p, t_album_images = [] \<rparr> \<rparr>"

definition example_Track :: "string \<Rightarrow> string \<Rightarrow> string option \<Rightarrow> Track" where
  "example_Track i n p =
     \<lparr> track_id = i, title = n, artist = ''Ann, Bob'',
       url = ''https://open.spotify.com/track/'' @ i, preview_url = p, albumImageUrl = [] \<rparr>"

definition w_example :: world where
  "w_example =
     \<lparr> Date_now_check = 1000, Date_now_store = 1200,
       post_auth = Inr \<lparr> access_token = ''tok'', expires_in = 3600 \<rparr>,
       get_search = (\<lambda>req. Inr (Some \<lparr> playlists_items =
                      Items [Some \<lparr> pl_id = Some ''p1'' \<rparr>, Some \<lparr> pl_id = Some ''p2'' \<rparr>] \<rparr>)),
       get_tracks = (\<lambda>i req.
          if i = 0
          then Inr \<lparr> items = Some [example_item ''t1'' ''Happy Birthday Song'' None,
                                    example_item ''t2'' ''Sunshine'' (Some ''preview-a'')] \<rparr>
          else Inr \<lparr> items = Some [example_item ''t2'' ''Sunshine'' None,
                                    example_item ''t3'' ''Dance Tonight'' None] \<rparr>),
       completion = [] \<rparr>"

text \<open>What the first call for a mood and a market leaves behind in that world.\<close>

definition example_array :: js_array where
  "example_array = \<lparr> ref = 0, elems = [example_Track ''t2'' ''Sunshine'' None] \<rparr>"

definition example_state :: "string \<Rightarrow> string \<Rightarrow> state" where
  "example_state mood market =
     \<lparr> accessToken = Some ''tok'', tokenExpiresAt = 3601200,
       cache = [(mood @ ''_'' @ market, example_array)],
       allocated = 1,
       network = [POST_spotify_auth,
                  GET_search ''Bearer tok'' mood 5 market,
                  GET_playlist_tracks ''Bearer tok'' ''p1'' 10 market,
                  GET_playlist_tracks ''Bearer tok'' ''p2'' 10 market] \<rparr>"

text \<open>The same world with the search endpoint, or the auth function, out of order.\<close>

definition w_search_down :: world where
  "w_search_down = w_example\<lparr>get_search := (\<lambda>req. Inl (AxiosError ''Network Error'' None))\<rparr>"

definition w_auth_down :: world where
  "w_auth_down =
     w_example\<lparr>post_auth := Inl (AxiosError ''Request failed with status code 500''
       (Some \<lparr> status = 500, data_message = Some ''Spotify credentials not configured'' \<rparr>))\<rparr>"

text \<open>A search response with the body \<^verbatim>\<open>null\<close>.\<close>

definition w_null_body :: world where
  "w_null_body = w_example\<lparr>get_search := (\<lambda>req. Inr None)\<rparr>"

text \<open>A search response without the list of playlists.\<close>

definition w_no_playlists :: world where
  "w_no_playlists = w_example\<lparr>get_search := (\<lambda>req. Inr (Some \<lparr> playlists_items = No_items \<rparr>))\<rparr>"

text \<open>
  Three playlists, of which the second cannot be fetched; the third answers first. The
  first and the third hold \<open>t2\<close>, and each holds a track with a blocked title.
\<close>

definition w_partial :: world where
  "w_partial =
     w_example\<lparr>
       get_search := (\<lambda>req. Inr (Some \<lparr> playlists_items =
          Items [Some \<lparr> pl_id = Some ''p1'' \<rparr>, Some \<lparr> pl_id = Some ''p2'' \<rparr>,
                 Some \<lparr> pl_id = Some ''p3'' \<rparr>] \<rparr>)),
       get_tracks := (\<lambda>i req.
          if i = 0 then Inr \<lparr> items = Some [example_item ''t2'' ''Sunshine'' None,
                                              example_item ''t1'' ''Happy Birthday Song'' None] \<rparr>
          else if i = 1 then Inl (AxiosError ''Request failed with status code 404'' None)
          else Inr \<lparr> items = Some [example_item ''t4'' ''Moonlight'' None,
                                    example_item ''t3'' ''Dance Tonight'' None,
                                    example_item ''t2'' ''Sunshine'' None] \<rparr>),
       completion := [2] \<rparr>"

text \<open>
  A token cache of the proxy function whose token expires in less than 60 seconds, and a
  world whose clock reads a time inside those 60 seconds.
\<close>

definition proxy_example :: proxy_state where
  "proxy_example =
     \<lparr> tokenCache_accessToken = Some ''old'', tokenCache_expiresAt = 100000, token_requests = 0 \<rparr>"

definition proxy_initial :: proxy_state where
  "proxy_initial =
     \<lparr> tokenCache_accessToken = None, tokenCache_expiresAt = 0, token_requests = 0 \<rparr>"

definition w_inside_buffer :: world where
  "w_inside_buffer = w_example\<lparr>Date_now_check := 50000, Date_now_store := 50200\<rparr>"

text \<open>The answers of \<open>w_partial\<close>, by position.\<close>

definition partial_ids :: "nat \<Rightarrow> string" where
  "partial_ids i = (if i = 0 then ''p1'' else if i = 1 then ''p2'' else ''p3'')"

definition partial_data :: "nat \<Rightarrow> track_data" where
  "partial_data i =
     (if i = 0 then \<lparr> items = Some [example_item ''t2'' ''Sunshine'' None,
                                      example_item ''t1'' ''Happy Birthday Song'' None] \<rparr>
      else \<lparr> items = Some [example_item ''t4'' ''Moonlight'' None,
                            example_item ''t3'' ''Dance Tonight'' None,
                            example_item ''t2'' ''Sunshine'' None] \<rparr>)"

text \<open>The state after a successful authentication in the example worlds.\<close>

definition example_authenticated :: state where
  "example_authenticated =
     \<lparr> accessToken = Some ''tok'', tokenExpiresAt = 3601200, cache = [], allocated = 0,
       network = [POST_spotify_auth] \<rparr>"

section \<open>Deduplication through a \<open>Map\<close>\<close>

lemma Map_set_keys:
  "map fst (Map_set m k v) = (if k \<in> fst ` set m then map fst m else map fst m @ [k])"
  by (induction m k v rule: Map_set.induct) auto

lemma map_of_Map_set: "map_of (Map_set m k v) = (map_of m)(k \<mapsto> v)"
  by (induction m k v rule: Map_set.induct) (auto simp: fun_eq_iff)

lemma Map_get_Map_set: "Map_get (Map_set m k v) k' = (if k' = k then Some v else Map_get m k')"
  by (simp add: Map_get_def map_of_Map_set)

lemma new_Map_Nil: "new_Map [] = []"
  by (simp add: new_Map_def)

lemma new_Map_snoc: "new_Map (es @ [(k, v)]) = Map_set (new_Map es) k v"
  by (simp add: new_Map_def)

lemma first_seen_snoc:
  "first_seen (xs @ [x]) = (if x \<in> set xs then first_seen xs else first_seen xs @ [x])"
  by (induction xs) auto

lemma set_first_seen: "set (first_seen xs) = set xs"
  by (induction xs) auto

lemma distinct_first_seen: "distinct (first_seen xs)"
  by (induction xs) (auto simp: set_first_seen)

lemma new_Map_keys: "map fst (new_Map es) = first_seen (map fst es)"
proof (induction es rule: rev_induct)
  case Nil
  show ?case by (simp add: new_Map_Nil)
next
  case (snoc e es)
  obtain k v where e: "e = (k, v)" by (cases e)
  have "fst ` set (new_Map es) = set (map fst es)"
    using snoc.IH set_first_seen [of "map fst es"] by (metis set_map)
  then show ?case
    using snoc.IH by (simp add: e new_Map_snoc Map_set_keys first_seen_snoc)
qed

lemma map_of_new_Map: "map_of (new_Map es) = map_of (rev es)"
proof (induction es rule: rev_induct)
  case Nil
  show ?case by (simp add: new_Map_Nil)
next
  case (snoc e es)
  obtain k v where e: "e = (k, v)" by (cases e)
  show ?case
    using snoc.IH by (simp add: e new_Map_snoc map_of_Map_set fun_eq_iff)
qed

lemma set_new_Map: "set (new_Map es) \<subseteq> set es"
proof (induction es rule: rev_induct)
  case Nil
  show ?case by (simp add: new_Map_Nil)
next
  case (snoc e es)
  obtain k v where e: "e = (k, v)" by (cases e)
  have "set (Map_set m k v) \<subseteq> insert (k, v) (set m)" for m :: "('a \<times> 'b) list"
    by (induction m k v rule: Map_set.induct) auto
  then show ?case
    using snoc.IH by (fastforce simp: e new_Map_snoc)
qed

lemma map_of_find: "map_of (map (\<lambda>t. (track_id t, t)) xs) i = find (\<lambda>t. track_id t = i) xs"
  by (induction xs) auto

lemma map_of_track_entries:
  "map_of (rev (map (\<lambda>t. (track_id t, t)) ts)) i = last_with_id ts i"
  using map_of_find [of "rev ts" i] by (simp add: last_with_id_def rev_map)

lemma values_by_lookup:
  "distinct (map fst m) \<Longrightarrow> map Some (Map_values m) = map (map_of m) (map fst m)"
  by (induction m) (auto simp: Map_values_def rev_image_eqI)

lemma uniqueTracks_ids: "map track_id (uniqueTracks ts) = first_seen (map track_id ts)"
proof -
  let ?es = "map (\<lambda>t. (track_id t, t)) ts"
  have "\<forall>e \<in> set (new_Map ?es). fst e = track_id (snd e)"
    using set_new_Map [of ?es] by auto
  then have "map track_id (Map_values (new_Map ?es)) = map fst (new_Map ?es)"
    by (simp add: Map_values_def)
  then show ?thesis
    by (simp add: uniqueTracks_def new_Map_keys comp_def)
qed

lemma distinct_uniqueTracks: "distinct (map track_id (uniqueTracks ts))"
  by (simp add: uniqueTracks_ids distinct_first_seen)

lemma set_uniqueTracks: "set (uniqueTracks ts) \<subseteq> set ts"
proof -
  have "snd ` set (new_Map (map (\<lambda>t. (track_id t, t)) ts)) \<subseteq> set ts"
    using set_new_Map [of "map (\<lambda>t. (track_id t, t)) ts"] by auto
  then show ?thesis
    by (simp add: uniqueTracks_def Map_values_def)
qed

lemma uniqueTracks_records:
  "map Some (uniqueTracks ts) = map (last_with_id ts) (first_seen (map track_id ts))"
proof -
  let ?es = "map (\<lambda>t. (track_id t, t)) ts"
  have d: "distinct (map fst (new_Map ?es))"
    by (simp add: new_Map_keys distinct_first_seen)
  have "map Some (uniqueTracks ts) = map (map_of (new_Map ?es)) (map fst (new_Map ?es))"
    unfolding uniqueTracks_def by (rule values_by_lookup [OF d])
  also have "\<dots> = map (last_with_id ts) (first_seen (map track_id ts))"
    by (simp add: new_Map_keys map_of_new_Map map_of_track_entries comp_def)
  finally show ?thesis .
qed

section \<open>Facts about the pipeline\<close>

subsection \<open>Substrings\<close>

lemma includes_str_iff_sublist: "includes_str s kw \<longleftrightarrow> sublist kw s"
proof (induction s)
  case Nil
  show ?case by auto
next
  case (Cons c cs)
  show ?case
  proof (cases kw)
    case Nil
    then show ?thesis by simp
  next
    case (Cons k ks)
    then show ?thesis
      using Cons.IH by (simp add: sublist_Cons_right)
  qed
qed

lemma some_blocked_iff:
  "some_blocked name \<longleftrightarrow> (\<exists>kw \<in> set BLOCKED_KEYWORDS. sublist kw name)"
  by (simp add: some_blocked_def list_ex_iff includes_str_iff_sublist)

subsection \<open>Pushing the tracks of one playlist\<close>

lemma forEach_body_append: "forEach_body tracks it = tracks @ forEach_body [] it"
  by (simp add: forEach_body_def Let_def split: option.splits)

lemma forEach_items_append: "forEach_items tracks its = tracks @ forEach_items [] its"
proof (induction its arbitrary: tracks)
  case Nil
  show ?case by (simp add: forEach_items_def)
next
  case (Cons it its)
  have "forEach_items tracks (it # its) = forEach_items (forEach_body tracks it) its"
    by (simp add: forEach_items_def)
  also have "\<dots> = forEach_body tracks it @ forEach_items [] its"
    by (rule Cons.IH)
  also have "\<dots> = tracks @ forEach_body [] it @ forEach_items [] its"
    using forEach_body_append [of tracks it] by simp
  also have "forEach_body [] it @ forEach_items [] its = forEach_items [] (it # its)"
    using Cons.IH [of "forEach_body [] it"] by (simp add: forEach_items_def)
  finally show ?case .
qed

lemma forEach_body_unblocked:
  "t \<in> set (forEach_body [] it) \<Longrightarrow> \<not> some_blocked (toLowerCase (title t))"
  by (auto simp: forEach_body_def Let_def mkTrack_def split: option.splits if_splits)

lemma forEach_items_unblocked:
  "t \<in> set (forEach_items [] its) \<Longrightarrow> \<not> some_blocked (toLowerCase (title t))"
proof (induction its rule: rev_induct)
  case Nil
  then show ?case by (simp add: forEach_items_def)
next
  case (snoc it its)
  have "forEach_items [] (its @ [it]) = forEach_items [] its @ forEach_body [] it"
    using forEach_body_append [of "forEach_items [] its" it] by (simp add: forEach_items_def)
  with snoc show ?case
    by (auto dest: forEach_body_unblocked)
qed

lemma playlist_callback_append:
  "playlist_callback w h m l pls tracks i = tracks @ playlist_callback w h m l pls [] i"
  using forEach_items_append [of tracks]
  by (simp add: playlist_callback_def forEach_items_def split: option.splits sum.splits)

lemma foldl_playlist_callback:
  "foldl (playlist_callback w h m l pls) tracks order =
     tracks @ concat (map (playlist_callback w h m l pls []) order)"
proof (induction order arbitrary: tracks)
  case Nil
  show ?case by simp
next
  case (Cons i order)
  show ?case
    using Cons.IH [of "playlist_callback w h m l pls tracks i"]
      playlist_callback_append [of w h m l pls tracks i]
    by simp
qed

lemma playlist_callback_unblocked:
  "t \<in> set (playlist_callback w h m l pls [] i) \<Longrightarrow> \<not> some_blocked (toLowerCase (title t))"
  by (auto simp: playlist_callback_def forEach_items_def [of _ "[]"]
      split: option.splits sum.splits dest: forEach_items_unblocked)

lemma collected_unblocked:
  "t \<in> set (foldl (playlist_callback w h m l pls) [] order) \<Longrightarrow>
     \<not> some_blocked (toLowerCase (title t))"
  by (auto simp: foldl_playlist_callback dest: playlist_callback_unblocked)

subsection \<open>The code's filter and the specification's\<close>

lemma title_mkTrack: "title (mkTrack i t) = t_name t"
  by (simp add: mkTrack_def)

lemma some_blocked_title: "some_blocked (toLowerCase ti) = blocked_title ti"
  by (simp add: some_blocked_iff blocked_title_def)

lemma filtered_tracks_Nil: "filtered_tracks [] = []"
  by (simp add: filtered_tracks_def List.map_filter_simps)

lemma filtered_tracks_Cons: "filtered_tracks (it # its) = filtered_tracks [it] @ filtered_tracks its"
  by (simp add: filtered_tracks_def List.map_filter_simps split: option.splits)

lemma forEach_body_filtered: "forEach_body [] it = filtered_tracks [it]"
  by (simp add: forEach_body_def filtered_tracks_def item_Track_def List.map_filter_simps
      some_blocked_title title_mkTrack Let_def split: option.splits)

lemma forEach_items_filtered: "forEach_items [] its = filtered_tracks its"
proof (induction its)
  case Nil
  show ?case by (simp add: forEach_items_def filtered_tracks_Nil)
next
  case (Cons it its)
  have "forEach_items [] (it # its) = forEach_items (forEach_body [] it) its"
    by (simp add: forEach_items_def)
  also have "\<dots> = forEach_body [] it @ forEach_items [] its"
    by (rule forEach_items_append)
  also have "\<dots> = filtered_tracks [it] @ filtered_tracks its"
    by (simp add: forEach_body_filtered Cons.IH)
  finally show ?case
    by (simp add: filtered_tracks_Cons [of it its])
qed

lemma map_track_filtered: "List.map_filter map_track its = filtered_tracks its"
proof (induction its)
  case Nil
  show ?case by (simp add: filtered_tracks_Nil List.map_filter_simps)
next
  case (Cons it its)
  have "List.map_filter map_track [it] = filtered_tracks [it]"
    by (simp add: map_track_def filtered_tracks_def item_Track_def List.map_filter_simps
        some_blocked_title title_mkTrack split: option.splits)
  moreover have "List.map_filter map_track (it # its) =
      List.map_filter map_track [it] @ List.map_filter map_track its"
    by (simp add: List.map_filter_simps split: option.splits)
  ultimately show ?case
    using Cons.IH by (simp add: filtered_tracks_Cons [of it its])
qed

subsection \<open>The order of completion\<close>

lemma set_completion_order: "set (completion_order w n) = {0..<n}"
  by (auto simp: completion_order_def)

lemma distinct_completion_order: "distinct (completion_order w n)"
  by (auto simp: completion_order_def)

lemma completion_order_perm:
  "distinct p \<Longrightarrow> set p = {0..<n} \<Longrightarrow> completion w = p \<Longrightarrow> completion_order w n = p"
  by (auto simp: completion_order_def filter_empty_conv)

subsection \<open>The branches of \<open>authenticateSpotify\<close> and \<open>fetchSongsByMood\<close>\<close>

lemma authenticateSpotify_cache: "authenticateSpotify w s = (r, s1) \<Longrightarrow> cache s1 = cache s"
  by (auto simp: authenticateSpotify_def send_def Let_def split: if_splits sum.splits)

lemma authenticateSpotify_allocated:
  "authenticateSpotify w s = (r, s1) \<Longrightarrow> allocated s1 = allocated s"
  by (auto simp: authenticateSpotify_def send_def Let_def split: if_splits sum.splits)

lemma fetch_hit:
  "Map_get (cache s) (key_of mood market) = Some a \<Longrightarrow>
     fetchSongsByMood w mood market plimit tlimit s = (Inr a, s)"
  by (simp add: fetchSongsByMood_def)

lemma fetch_auth_failed:
  "Map_get (cache s) (key_of mood market) = None \<Longrightarrow>
   authenticateSpotify w s = (Inl e, s1) \<Longrightarrow>
     fetchSongsByMood w mood market plimit tlimit s = (Inl e, s1)"
  by (simp add: fetchSongsByMood_def)

lemma fetch_search_failed:
  "Map_get (cache s) (key_of mood market) = None \<Longrightarrow>
   authenticateSpotify w s = (Inr tok, s1) \<Longrightarrow>
   get_search w (GET_search (Authorization s1) mood plimit market) = Inl err \<Longrightarrow>
     fetchSongsByMood w mood market plimit tlimit s =
       (Inr \<lparr> ref = allocated s1, elems = [] \<rparr>,
        (send s1 [GET_search (Authorization s1) mood plimit market])
          \<lparr>allocated := allocated s1 + 1\<rparr>)"
  by (simp add: fetchSongsByMood_def catch_return_empty_def new_array_def send_def Let_def)

lemma fetch_search_null:
  "Map_get (cache s) (key_of mood market) = None \<Longrightarrow>
   authenticateSpotify w s = (Inr tok, s1) \<Longrightarrow>
   get_search w (GET_search (Authorization s1) mood plimit market) = Inr None \<Longrightarrow>
     fetchSongsByMood w mood market plimit tlimit s =
       (Inr \<lparr> ref = allocated s1, elems = [] \<rparr>,
        (send s1 [GET_search (Authorization s1) mood plimit market])
          \<lparr>allocated := allocated s1 + 1\<rparr>)"
  by (simp add: fetchSongsByMood_def catch_return_empty_def new_array_def send_def Let_def)

lemma fetch_search_ok:
  "Map_get (cache s) (key_of mood market) = None \<Longrightarrow>
   authenticateSpotify w s = (Inr tok, s1) \<Longrightarrow>
   get_search w (GET_search (Authorization s1) mood plimit market) = Inr (Some sd) \<Longrightarrow>
   pls = (case playlists_items sd of Items ps \<Rightarrow> ps | No_items \<Rightarrow> [] | Not_an_array b \<Rightarrow> []) \<Longrightarrow>
   a = \<lparr> ref = allocated s1,
         elems = uniqueTracks (foldl (playlist_callback w (Authorization s1) market tlimit pls) []
                   (completion_order w (length pls))) \<rparr> \<Longrightarrow>
     fetchSongsByMood w mood market plimit tlimit s =
       (Inr a,
        (send s1 (GET_search (Authorization s1) mood plimit market #
                  track_requests (Authorization s1) market tlimit pls))
          \<lparr>allocated := allocated s1 + 1, cache := Map_set (cache s1) (key_of mood market) a\<rparr>)"
  by (simp add: fetchSongsByMood_def new_array_def send_def Let_def)

lemma fetch_part_003_ok:
  "Map_get (cache s) (key_of mood market) = None \<Longrightarrow>
   get_search w (GET_api_search mood plimit market) = Inr (Some sd) \<Longrightarrow>
   playlists_items sd = Items pls \<Longrightarrow>
   a = \<lparr> ref = allocated s,
         elems = uniqueTracks (concat (map (playlist_tracks_part_003 w market tlimit pls)
                   [0..<length pls])) \<rparr> \<Longrightarrow>
     fetchSongsByMood_part_003 w mood market plimit tlimit s =
       (Inr a,
        (send s (GET_api_search mood plimit market #
                 track_requests_part_003 market tlimit pls))
          \<lparr>allocated := allocated s + 1, cache := Map_set (cache s) (key_of mood market) a\<rparr>)"
  by (simp add: fetchSongsByMood_part_003_def new_array_def send_def Let_def)

subsection \<open>What a call can do\<close>

lemma fetch_cases:
  assumes "fetchSongsByMood w mood market plimit tlimit s = (r, s')"
  obtains
    (hit) a where "Map_get (cache s) (key_of mood market) = Some a" "r = Inr a" "s' = s"
  | (auth_failed) e where "Map_get (cache s) (key_of mood market) = None" "r = Inl e"
      "cache s' = cache s"
  | (search_failed) a where "Map_get (cache s) (key_of mood market) = None" "r = Inr a"
      "elems a = []" "cache s' = cache s"
      "\<nexists>sd. get_search w (GET_search (Authorization s') mood plimit market) = Inr (Some sd)"
  | (stored) a tracks where "Map_get (cache s) (key_of mood market) = None" "r = Inr a"
      "elems a = uniqueTracks tracks"
      "\<forall>t \<in> set tracks. \<not> some_blocked (toLowerCase (title t))"
      "cache s' = Map_set (cache s) (key_of mood market) a"
proof (cases "Map_get (cache s) (key_of mood market)")
  case (Some a)
  with assms have "r = Inr a" "s' = s"
    by (simp_all add: fetch_hit)
  with Some show ?thesis
    by (rule hit)
next
  case None
  obtain ra s1 where auth: "authenticateSpotify w s = (ra, s1)"
    by (cases "authenticateSpotify w s")
  note c1 = authenticateSpotify_cache [OF auth]
  show ?thesis
  proof (cases ra)
    case (Inl e)
    with assms None auth have r: "r = Inl e" and "s' = s1"
      by (simp_all add: fetch_auth_failed)
    with c1 have "cache s' = cache s"
      by simp
    with None r show ?thesis
      by (rule auth_failed)
  next
    case (Inr tok)
    let ?req = "GET_search (Authorization s1) mood plimit market"
    have empty: ?thesis
      if no: "\<nexists>sd. get_search w ?req = Inr (Some sd)"
        and run: "fetchSongsByMood w mood market plimit tlimit s =
          (Inr \<lparr> ref = allocated s1, elems = [] \<rparr>,
           (send s1 [?req])\<lparr>allocated := allocated s1 + 1\<rparr>)"
    proof -
      from assms run have r: "r = Inr \<lparr> ref = allocated s1, elems = [] \<rparr>"
        and s': "s' = (send s1 [?req])\<lparr>allocated := allocated s1 + 1\<rparr>"
        by simp_all
      have "Authorization s' = Authorization s1"
        by (simp add: s' Authorization_def send_def)
      with no have failed:
        "\<nexists>sd. get_search w (GET_search (Authorization s') mood plimit market) = Inr (Some sd)"
        by simp
      have c: "cache s' = cache s"
        by (simp add: s' send_def c1)
      show ?thesis
        by (rule search_failed [OF None r _ c failed]) simp
    qed
    show ?thesis
    proof (cases "get_search w ?req")
      case (Inl err)
      show ?thesis
      proof (rule empty)
        show "\<nexists>sd. get_search w ?req = Inr (Some sd)"
          using Inl by simp
        show "fetchSongsByMood w mood market plimit tlimit s =
          (Inr \<lparr> ref = allocated s1, elems = [] \<rparr>,
           (send s1 [?req])\<lparr>allocated := allocated s1 + 1\<rparr>)"
          using None auth Inr Inl by (simp add: fetch_search_failed)
      qed
    next
      case body: (Inr body)
      show ?thesis
      proof (cases body)
        case no_body: None
        show ?thesis
        proof (rule empty)
          show "\<nexists>sd. get_search w ?req = Inr (Some sd)"
            using body no_body by simp
          show "fetchSongsByMood w mood market plimit tlimit s =
            (Inr \<lparr> ref = allocated s1, elems = [] \<rparr>,
             (send s1 [?req])\<lparr>allocated := allocated s1 + 1\<rparr>)"
            using None auth Inr body no_body by (simp add: fetch_search_null)
        qed
      next
        case (Some sd)
        define pls where "pls =
          (case playlists_items sd of Items ps \<Rightarrow> ps | No_items \<Rightarrow> [] | Not_an_array b \<Rightarrow> [])"
        define tracks where "tracks =
          foldl (playlist_callback w (Authorization s1) market tlimit pls) []
            (completion_order w (length pls))"
        define a where "a = \<lparr> ref = allocated s1, elems = uniqueTracks tracks \<rparr>"
        have "fetchSongsByMood w mood market plimit tlimit s =
            (Inr a,
             (send s1 (?req # track_requests (Authorization s1) market tlimit pls))
               \<lparr>allocated := allocated s1 + 1,
                cache := Map_set (cache s1) (key_of mood market) a\<rparr>)"
          using None auth Inr body Some
          by (intro fetch_search_ok) (simp_all add: pls_def tracks_def a_def)
        with assms have r: "r = Inr a"
          and s': "cache s' = Map_set (cache s) (key_of mood market) a"
          by (auto simp: c1)
        have ok: "\<forall>t \<in> set tracks. \<not> some_blocked (toLowerCase (title t))"
          unfolding tracks_def by (blast dest: collected_unblocked)
        have e: "elems a = uniqueTracks tracks"
          by (simp add: a_def)
        show ?thesis
          by (rule stored [OF None r e ok s'])
      qed
    qed
  qed
qed

lemma set_Map_set: "set (Map_set m k v) \<subseteq> insert (k, v) (set m)"
  by (induction m k v rule: Map_set.induct) auto

lemma Map_get_in_set: "Map_get m k = Some v \<Longrightarrow> (k, v) \<in> set m"
  by (simp add: Map_get_def map_of_SomeD)

text \<open>
  A property that holds of the empty list and of every deduplicated list of unblocked tracks
  holds of every array a call returns and of every array in the cache.
\<close>

lemma fetch_preserves:
  assumes step: "fetchSongsByMood w mood market plimit tlimit s = (r, s')"
    and inv: "\<forall>e \<in> set (cache s). P (elems (snd e))"
    and empty: "P []"
    and unique: "\<And>tracks. \<forall>t \<in> set tracks. \<not> some_blocked (toLowerCase (title t))
        \<Longrightarrow> P (uniqueTracks tracks)"
  shows "(\<forall>e \<in> set (cache s'). P (elems (snd e))) \<and> (\<forall>a. r = Inr a \<longrightarrow> P (elems a))"
  using step
proof (cases rule: fetch_cases)
  case (hit a)
  then show ?thesis
    using inv Map_get_in_set [of "cache s" "key_of mood market" a] by auto
next
  case (auth_failed e)
  then show ?thesis using inv by simp
next
  case (search_failed a)
  then show ?thesis using inv empty by simp
next
  case (stored a tracks)
  have "P (elems a)"
    using stored unique by simp
  moreover have "set (cache s') \<subseteq> insert (key_of mood market, a) (set (cache s))"
    using stored set_Map_set by metis
  ultimately show ?thesis
    using inv stored by auto
qed

lemma calls_preserve:
  assumes "calls s s'"
    and "\<forall>e \<in> set (cache s). P (elems (snd e))"
    and "P []"
    and "\<And>tracks. \<forall>t \<in> set tracks. \<not> some_blocked (toLowerCase (title t))
        \<Longrightarrow> P (uniqueTracks tracks)"
  shows "\<forall>e \<in> set (cache s'). P (elems (snd e))"
  using assms
proof (induction rule: calls.induct)
  case (no_call s)
  then show ?case by simp
next
  case (call s s' w mood market playlistLimit trackLimit r s'')
  have "\<forall>e \<in> set (cache s'). P (elems (snd e))"
    using call.IH call.prems by blast
  then show ?case
    using fetch_preserves [OF call.hyps(2), of P] call.prems by blast
qed

lemma reachable_cache:
  assumes "reachable s"
    and "P []"
    and "\<And>tracks. \<forall>t \<in> set tracks. \<not> some_blocked (toLowerCase (title t))
        \<Longrightarrow> P (uniqueTracks tracks)"
  shows "\<forall>e \<in> set (cache s). P (elems (snd e))"
  using calls_preserve [of initial_state s P] assms
  by (simp add: reachable_def initial_state_def)

text \<open>Entries of the cache are never replaced or removed.\<close>

lemma fetch_keeps_entries:
  assumes "fetchSongsByMood w mood market plimit tlimit s = (r, s')"
    and "Map_get (cache s) k = Some a"
  shows "Map_get (cache s') k = Some a"
  using assms(1)
proof (cases rule: fetch_cases)
  case (stored a' tracks)
  then show ?thesis
    using assms(2) by (auto simp: Map_get_Map_set)
qed (use assms(2) in simp_all)

lemma calls_keep_entries:
  "calls s s' \<Longrightarrow> Map_get (cache s) k = Some a \<Longrightarrow> Map_get (cache s') k = Some a"
  by (induction rule: calls.induct) (auto dest: fetch_keeps_entries)

text \<open>
  A call that resolves, and whose search did not fail if it had to search, leaves its array
  in the cache.
\<close>

lemma fetch_stores:
  assumes "fetchSongsByMood w mood market plimit tlimit s = (Inr a, s')"
    and "Map_get (cache s) (key_of mood market) = None \<longrightarrow>
         (\<exists>sd. get_search w (GET_search (Authorization s') mood plimit market) = Inr (Some sd))"
  shows "Map_get (cache s') (key_of mood market) = Some a"
  using assms(1)
proof (cases rule: fetch_cases)
  case (hit a')
  then show ?thesis by simp
next
  case (auth_failed e)
  then show ?thesis by simp
next
  case (search_failed a')
  then show ?thesis using assms(2) by simp
next
  case (stored a' tracks)
  then show ?thesis by (simp add: Map_get_Map_set)
qed

section \<open>The example, run\<close>

lemma example_run:
  "fetchSongsByMood w_example ''happy'' ''US'' 5 10 initial_state =
     (Inr example_array, example_state ''happy'' ''US'')"
  by code_simp

lemma example_run_collision:
  "fetchSongsByMood w_example ''a_b'' ''C'' 5 10 initial_state =
     (Inr example_array, example_state ''a_b'' ''C'')"
  by code_simp

lemma example_search_answers:
  "Map_get (cache initial_state) (key_of mood market) = None \<longrightarrow>
   (\<exists>sd. get_search w_example
      (GET_search (Authorization (example_state mood market)) mood 5 market) = Inr (Some sd))"
  by (simp add: w_example_def)

text \<open>
  A search answered with the body \<^verbatim>\<open>null\<close> ends in the \<^verbatim>\<open>catch\<close>: the call resolves
  with a new empty array and stores nothing.
\<close>

lemma null_body_not_stored:
  "fetchSongsByMood w_null_body ''happy'' ''US'' 5 10 initial_state =
     (Inr \<lparr> ref = 0, elems = [] \<rparr>,
      \<lparr> accessToken = Some ''tok'', tokenExpiresAt = 3601200, cache = [], allocated = 1,
        network = [POST_spotify_auth, GET_search ''Bearer tok'' ''happy'' 5 ''US''] \<rparr>)"
  by code_simp

section \<open>The result cache\<close>




text \<open>
  C10. The key of the result cache is \<open>mood @ ''_'' @ market\<close>, and different pairs can
  have the same key, as \<open>(''a_b'', ''C'')\<close> and \<open>(''a'', ''b_C'')\<close> do. After a successful
  call for one pair, a call for another pair with the same key resolves at once with the
  first pair's array and sends no request.
\<close>

theorem cache_key_collision:
  assumes "key_of mood market = key_of mood' market'"
    and "fetchSongsByMood w1 mood market plimit1 tlimit1 s0 = (Inr a, s1)"
    and "Map_get (cache s0) (key_of mood market) = None \<longrightarrow>
         (\<exists>sd. get_search w1 (GET_search (Authorization s1) mood plimit1 market) = Inr (Some sd))"
    and "calls s1 s2"
  shows "fetchSongsByMood w2 mood' market' plimit2 tlimit2 s2 = (Inr a, s2) \<and>
         key_of mood market = mood @ ''_'' @ market \<and>
         key_of ''a_b'' ''C'' = key_of ''a'' ''b_C'' \<and> (''a_b'', ''C'') \<noteq> (''a'', ''b_C'')"
proof -
  have "Map_get (cache s1) (key_of mood market) = Some a"
    using assms(2,3) by (rule fetch_stores)
  with assms(4) have "Map_get (cache s2) (key_of mood market) = Some a"
    by (rule calls_keep_entries)
  then have "fetchSongsByMood w2 mood' market' plimit2 tlimit2 s2 = (Inr a, s2)"
    unfolding assms(1) by (rule fetch_hit)
  then show ?thesis
    by (simp add: key_of_def)
qed

theorem cache_key_collision_witness:
  "key_of ''a_b'' ''C'' = key_of ''a'' ''b_C'' \<and>
   fetchSongsByMood w_example ''a_b'' ''C'' 5 10 initial_state =
     (Inr example_array, example_state ''a_b'' ''C'') \<and>
   Map_get (cache initial_state) (key_of ''a_b'' ''C'') = None \<and>
   (\<exists>sd. get_search w_example
          (GET_search (Authorization (example_state ''a_b'' ''C'')) ''a_b'' 5 ''C'')
            = Inr (Some sd)) \<and>
   calls (example_state ''a_b'' ''C'') (example_state ''a_b'' ''C'') \<and>
   fetchSongsByMood w_no_playlists ''a'' ''b_C'' 5 10 (example_state ''a_b'' ''C'') =
     (Inr example_array, example_state ''a_b'' ''C'')"
proof -
  have k: "key_of ''a_b'' ''C'' = key_of ''a'' ''b_C''"
    by (simp add: key_of_def)
  have miss: "Map_get (cache initial_state) (key_of ''a_b'' ''C'') = None"
    by (simp add: initial_state_def Map_get_def)
  show ?thesis
    using cache_key_collision [OF k example_run_collision example_search_answers calls.no_call]
      k example_run_collision example_search_answers [of "''a_b''" "''C''"] calls.no_call miss
    by blast
qed

lemma reachable_initial: "reachable initial_state"
  by (simp add: reachable_def calls.no_call)

section \<open>Filtering and deduplication\<close>

text \<open>
  C2. In every state the program can reach, the array a call of \<open>fetchSongsByMood\<close>
  resolves with holds no two tracks with the same id, and the same is true of every array in
  the result cache after the call.
\<close>

theorem returned_ids_distinct:
  assumes "reachable s"
    and "fetchSongsByMood w mood market plimit tlimit s = (Inr a, s')"
  shows "distinct (map track_id (elems a)) \<and>
         (\<forall>e \<in> set (cache s'). distinct (map track_id (elems (snd e))))"
proof -
  let ?P = "\<lambda>ts. distinct (map track_id ts)"
  have "\<forall>e \<in> set (cache s). ?P (elems (snd e))"
    using assms(1) by (rule reachable_cache) (simp_all add: distinct_uniqueTracks)
  then show ?thesis
    using fetch_preserves [OF assms(2), of ?P] by (simp add: distinct_uniqueTracks)
qed

theorem returned_ids_distinct_witness:
  "reachable initial_state \<and>
   fetchSongsByMood w_example ''happy'' ''US'' 5 10 initial_state =
     (Inr example_array, example_state ''happy'' ''US'') \<and>
   distinct (map track_id (elems example_array)) \<and>
   list_all (\<lambda>e. distinct (map track_id (elems (snd e)))) (cache (example_state ''happy'' ''US''))"
  using returned_ids_distinct [OF reachable_initial example_run] reachable_initial example_run
  by (simp add: list_all_iff)

text \<open>
  C3. In every state the program can reach, no track of the array a call resolves with has
  a title whose lower-case form contains an entry of the block list; so the Track built from
  an upstream track with such a name is not in the array, whatever id it would carry.
\<close>

theorem returned_titles_unblocked:
  assumes "reachable s"
    and "fetchSongsByMood w mood market plimit tlimit s = (Inr a, s')"
  shows "(\<forall>t \<in> set (elems a). \<forall>kw \<in> set BLOCKED_KEYWORDS. \<not> sublist kw (toLowerCase (title t))) \<and>
         (\<forall>i t0. (\<exists>kw \<in> set BLOCKED_KEYWORDS. sublist kw (toLowerCase (t_name t0)))
            \<longrightarrow> mkTrack i t0 \<notin> set (elems a))"
proof -
  let ?P = "\<lambda>ts. \<forall>t \<in> set ts. \<not> some_blocked (toLowerCase (title t))"
  have unique: "?P (uniqueTracks tracks)" if "?P tracks" for tracks
    using that set_uniqueTracks [of tracks] by blast
  have "\<forall>e \<in> set (cache s). ?P (elems (snd e))"
    using assms(1) by (rule reachable_cache) (simp_all add: unique)
  then have "?P (elems a)"
    using fetch_preserves [OF assms(2), of ?P] unique by simp
  then have clean: "\<forall>t \<in> set (elems a). \<forall>kw \<in> set BLOCKED_KEYWORDS.
      \<not> sublist kw (toLowerCase (title t))"
    by (simp add: some_blocked_iff)
  moreover have "title (mkTrack i t0) = t_name t0" for i t0
    by (simp add: mkTrack_def)
  ultimately show ?thesis
    by metis
qed

theorem returned_titles_unblocked_witness:
  "reachable initial_state \<and>
   fetchSongsByMood w_example ''happy'' ''US'' 5 10 initial_state =
     (Inr example_array, example_state ''happy'' ''US'') \<and>
   list_all (\<lambda>t. list_all (\<lambda>kw. \<not> sublist kw (toLowerCase (title t))) BLOCKED_KEYWORDS)
     (elems example_array) \<and>
   (\<exists>kw \<in> set BLOCKED_KEYWORDS. sublist kw (toLowerCase ''Happy Birthday Song'')) \<and>
   mkTrack ''t1'' \<lparr> t_id = Some ''t1'', t_name = ''Happy Birthday Song'', t_artists = [],
                      t_external_urls_spotify = [], t_preview_url = None, t_album_images = [] \<rparr>
     \<notin> set (elems example_array)"
proof -
  let ?t0 = "\<lparr> t_id = Some ''t1'', t_name = ''Happy Birthday Song'', t_artists = [],
               t_external_urls_spotify = [], t_preview_url = None, t_album_images = [] \<rparr>"
  have "includes_str (toLowerCase ''Happy Birthday Song'') ''happy birthday''"
    by code_simp
  moreover have "''happy birthday'' \<in> set BLOCKED_KEYWORDS"
    by (simp add: BLOCKED_KEYWORDS_def)
  ultimately have blocked:
    "\<exists>kw \<in> set BLOCKED_KEYWORDS. sublist kw (toLowerCase ''Happy Birthday Song'')"
    using includes_str_iff_sublist by blast
  then have "\<exists>kw \<in> set BLOCKED_KEYWORDS. sublist kw (toLowerCase (t_name ?t0))"
    by simp
  then have "mkTrack ''t1'' ?t0 \<notin> set (elems example_array)"
    using returned_titles_unblocked [OF reachable_initial example_run] by blast
  then show ?thesis
    using returned_titles_unblocked [OF reachable_initial example_run]
      reachable_initial example_run blocked
    by (simp add: list_all_iff)
qed

text \<open>
  C4, as the code has it. Deduplication puts each id where it was first seen, and the record
  at that place is the last record of the sequence that carries the id: a later duplicate
  replaces the field values of an earlier one and keeps its place.
\<close>

theorem dedup_first_place_last_record:
  "map track_id (uniqueTracks tracks) = first_seen (map track_id tracks) \<and>
   map Some (uniqueTracks tracks) = map (last_with_id tracks) (first_seen (map track_id tracks))"
  using uniqueTracks_ids [of tracks] uniqueTracks_records [of tracks] by simp

text \<open>
  C4 as stated, with the first record surviving, fails when the two playlists of the example
  deliver \<open>t2\<close> with different previews: the record from the second playlist survives.
\<close>

theorem dedup_first_record_counterexample:
  "map Some (uniqueTracks [example_Track ''t2'' ''Sunshine'' (Some ''preview-a''),
                           example_Track ''t2'' ''Sunshine'' None])
   \<noteq> map (first_with_id [example_Track ''t2'' ''Sunshine'' (Some ''preview-a''),
                          example_Track ''t2'' ''Sunshine'' None])
        (first_seen (map track_id [example_Track ''t2'' ''Sunshine'' (Some ''preview-a''),
                                   example_Track ''t2'' ''Sunshine'' None]))"
  by code_simp

lemma example_collected:
  "foldl (playlist_callback w_example ''Bearer tok'' ''US'' 10
            [Some \<lparr> pl_id = Some ''p1'' \<rparr>, Some \<lparr> pl_id = Some ''p2'' \<rparr>]) []
     (completion_order w_example 2) =
   [example_Track ''t2'' ''Sunshine'' (Some ''preview-a''), example_Track ''t2'' ''Sunshine'' None]"
  by code_simp

section \<open>Failures\<close>

lemma authenticateSpotify_part_001_ok:
  "authenticateSpotify w s = (Inr tok, s1) \<Longrightarrow> authenticateSpotify_part_001 w s = (Inr tok, s1)"
  by (auto simp: authenticateSpotify_def authenticateSpotify_part_001_def Let_def
      split: if_splits sum.splits)

lemma example_authenticate:
  "authenticateSpotify w_search_down initial_state = (Inr (Some ''tok''), example_authenticated)"
  by code_simp

text \<open>
  C5, as the code has it. When nothing is cached for the mood and the market and the search
  request fails, nothing is stored in the result cache. The production service then resolves
  with a new empty array instead of rejecting; the variant that reports failures rejects.
\<close>

theorem search_failure_not_cached:
  assumes "Map_get (cache s) (key_of mood market) = None"
    and "authenticateSpotify w s = (Inr tok, s1)"
    and "get_search w (GET_search (Authorization s1) mood plimit market) = Inl err"
  shows "(\<exists>a s'. fetchSongsByMood w mood market plimit tlimit s = (Inr a, s') \<and>
            elems a = [] \<and> cache s' = cache s \<and>
            Map_get (cache s') (key_of mood market) = None) \<and>
         (\<exists>e s'. fetchSongsByMood_part_001 w mood market plimit tlimit s = (Inl e, s') \<and>
            cache s' = cache s \<and> Map_get (cache s') (key_of mood market) = None)"
proof -
  have c: "cache s1 = cache s"
    using assms(2) by (rule authenticateSpotify_cache)
  have "fetchSongsByMood w mood market plimit tlimit s =
      (Inr \<lparr> ref = allocated s1, elems = [] \<rparr>,
       (send s1 [GET_search (Authorization s1) mood plimit market])
         \<lparr>allocated := allocated s1 + 1\<rparr>)"
    using assms by (rule fetch_search_failed)
  moreover have "fetchSongsByMood_part_001 w mood market plimit tlimit s =
      (Inl (catch_part_001 (Thrown err)),
       send s1 [GET_search (Authorization s1) mood plimit market])"
    using assms authenticateSpotify_part_001_ok [OF assms(2)]
    by (simp add: fetchSongsByMood_part_001_def Let_def)
  ultimately show ?thesis
    using assms(1) c by (simp add: send_def)
qed

theorem search_failure_not_cached_witness:
  "Map_get (cache initial_state) (key_of ''happy'' ''US'') = None \<and>
   authenticateSpotify w_search_down initial_state = (Inr (Some ''tok''), example_authenticated) \<and>
   get_search w_search_down (GET_search (Authorization example_authenticated) ''happy'' 5 ''US'')
     = Inl (AxiosError ''Network Error'' None) \<and>
   (\<exists>a s'. fetchSongsByMood w_search_down ''happy'' ''US'' 5 10 initial_state = (Inr a, s') \<and>
      elems a = [] \<and> cache s' = cache initial_state \<and>
      Map_get (cache s') (key_of ''happy'' ''US'') = None) \<and>
   (\<exists>e s'. fetchSongsByMood_part_001 w_search_down ''happy'' ''US'' 5 10 initial_state = (Inl e, s') \<and>
      cache s' = cache initial_state \<and> Map_get (cache s') (key_of ''happy'' ''US'') = None)"
proof -
  have miss: "Map_get (cache initial_state) (key_of ''happy'' ''US'') = None"
    by (simp add: initial_state_def Map_get_def)
  have down: "get_search w_search_down
      (GET_search (Authorization example_authenticated) ''happy'' 5 ''US'')
        = Inl (AxiosError ''Network Error'' None)"
    by (simp add: w_search_down_def)
  show ?thesis
    using search_failure_not_cached [OF miss example_authenticate down, of 10]
      miss example_authenticate down
    by blast
qed

text \<open>
  C5 as stated fails in the production service: with the search endpoint down, the first
  call for \<open>happy\<close> resolves (with an empty array) rather than rejecting.
\<close>

theorem search_failure_resolves_counterexample:
  "Map_get (cache initial_state) (key_of ''happy'' ''US'') = None \<and>
   isl (get_search w_search_down (GET_search ''Bearer tok'' ''happy'' 5 ''US'')) \<and>
   fetchSongsByMood w_search_down ''happy'' ''US'' 5 10 initial_state =
     (Inr \<lparr> ref = 0, elems = [] \<rparr>,
      \<lparr> accessToken = Some ''tok'', tokenExpiresAt = 3601200, cache = [], allocated = 1,
        network = [POST_spotify_auth, GET_search ''Bearer tok'' ''happy'' 5 ''US''] \<rparr>)"
  by code_simp

text \<open>
  C6. When nothing is cached for the mood and the market, no valid token is held and the
  request for a token fails, \<open>fetchSongsByMood\<close> rejects with the error
  \<open>Spotify authentication failed\<close>. The state changes only in that the one request is on
  record: the cache is as before, so the key is still absent, and a later call for the same
  key authenticates again.
\<close>

theorem authentication_failure_rejects:
  assumes "Map_get (cache s) (key_of mood market) = None"
    and "\<not> token_valid w s"
    and "post_auth w = Inl err"
  shows "fetchSongsByMood w mood market plimit tlimit s =
           (Inl (Error ''Spotify authentication failed''), send s [POST_spotify_auth]) \<and>
         cache (send s [POST_spotify_auth]) = cache s \<and>
         Map_get (cache (send s [POST_spotify_auth])) (key_of mood market) = None \<and>
         (\<forall>w2 plimit2 tlimit2. Date_now_check w \<le> Date_now_check w2 \<longrightarrow>
            prefix (network (send s [POST_spotify_auth]) @ [POST_spotify_auth])
              (network (snd (fetchSongsByMood w2 mood market plimit2 tlimit2
                 (send s [POST_spotify_auth])))))"
proof -
  let ?s' = "send s [POST_spotify_auth]"
  have auth: "authenticateSpotify w s = (Inl (Error ''Spotify authentication failed''), ?s')"
    using assms(2,3) by (simp add: authenticateSpotify_def)
  have first: "fetchSongsByMood w mood market plimit tlimit s =
      (Inl (Error ''Spotify authentication failed''), ?s')"
    using assms(1) auth by (rule fetch_auth_failed)
  have c: "cache ?s' = cache s"
    by (simp add: send_def)
  have again: "prefix (network ?s' @ [POST_spotify_auth])
      (network (snd (fetchSongsByMood w2 mood market plimit2 tlimit2 ?s')))"
    if later: "Date_now_check w \<le> Date_now_check w2" for w2 plimit2 tlimit2
  proof -
    have invalid: "\<not> token_valid w2 ?s'"
      using assms(2) later by (auto simp: token_valid_def send_def)
    have miss: "Map_get (cache ?s') (key_of mood market) = None"
      using assms(1) c by simp
    show ?thesis
      using invalid miss
      by (auto simp: fetchSongsByMood_def authenticateSpotify_def catch_return_empty_def
          new_array_def send_def Let_def split: sum.splits prod.splits option.splits)
  qed
  show ?thesis
    using first c assms(1) again by simp
qed

theorem authentication_failure_rejects_witness:
  "Map_get (cache initial_state) (key_of ''happy'' ''US'') = None \<and>
   \<not> token_valid w_auth_down initial_state \<and>
   isl (post_auth w_auth_down) \<and>
   fetchSongsByMood w_auth_down ''happy'' ''US'' 5 10 initial_state =
     (Inl (Error ''Spotify authentication failed''), send initial_state [POST_spotify_auth]) \<and>
   Map_get (cache (send initial_state [POST_spotify_auth])) (key_of ''happy'' ''US'') = None \<and>
   prefix (network (send initial_state [POST_spotify_auth]) @ [POST_spotify_auth])
     (network (snd (fetchSongsByMood w_example ''happy'' ''US'' 5 10
        (send initial_state [POST_spotify_auth]))))"
proof -
  have miss: "Map_get (cache initial_state) (key_of ''happy'' ''US'') = None"
    by (simp add: initial_state_def Map_get_def)
  have invalid: "\<not> token_valid w_auth_down initial_state"
    by (simp add: token_valid_def initial_state_def)
  have down: "post_auth w_auth_down = Inl (AxiosError ''Request failed with status code 500''
       (Some \<lparr> status = 500, data_message = Some ''Spotify credentials not configured'' \<rparr>))"
    by (simp add: w_auth_down_def)
  have later: "Date_now_check w_auth_down \<le> Date_now_check w_example"
    by (simp add: w_auth_down_def)
  show ?thesis
    using authentication_failure_rejects [OF miss invalid down, of 5 10] miss invalid down later
    by simp
qed

section \<open>Playlists that fail, playlists that are missing\<close>

lemma concat_map_skip:
  "f k = [] \<Longrightarrow> concat (map f (filter (\<lambda>i. i \<noteq> k) xs)) = concat (map f xs)"
  by (induction xs) auto

text \<open>
  With one failed playlist the production service collects the filtered tracks of the others
  in the order in which their responses arrive.
\<close>

lemma isolated_part_008:
  assumes "Map_get (cache s) (key_of mood market) = None"
    and "playlists_items sd = Items pls"
    and "\<forall>i < length pls. truthy_id (pls ! i) = Some (pid i)"
    and "k < length pls"
    and "authenticateSpotify w s = (Inr tok, s1)"
    and "get_search w (GET_search (Authorization s1) mood plimit market) = Inr (Some sd)"
    and "get_tracks w k (GET_playlist_tracks (Authorization s1) (pid k) tlimit market) = Inl err"
    and "\<forall>i < length pls. i \<noteq> k \<longrightarrow>
           get_tracks w i (GET_playlist_tracks (Authorization s1) (pid i) tlimit market)
             = Inr (D i)"
  shows "\<exists>a s'. fetchSongsByMood w mood market plimit tlimit s = (Inr a, s') \<and>
           elems a = uniqueTracks (concat (map
             (\<lambda>i. filtered_tracks (case items (D i) of None \<Rightarrow> [] | Some its \<Rightarrow> its))
             (filter (\<lambda>i. i \<noteq> k) (completion_order w (length pls))))) \<and>
           Map_get (cache s') (key_of mood market) = Some a"
proof -
  let ?cb = "playlist_callback w (Authorization s1) market tlimit pls []"
  let ?order = "completion_order w (length pls)"
  let ?good = "\<lambda>i. filtered_tracks (case items (D i) of None \<Rightarrow> [] | Some its \<Rightarrow> its)"
  define a where "a = \<lparr> ref = allocated s1,
    elems = uniqueTracks (foldl (playlist_callback w (Authorization s1) market tlimit pls) []
              ?order) \<rparr>"
  have pls: "pls = (case playlists_items sd of Items ps \<Rightarrow> ps | No_items \<Rightarrow> []
      | Not_an_array b \<Rightarrow> [])"
    using assms(2) by simp
  have run: "fetchSongsByMood w mood market plimit tlimit s =
      (Inr a,
       (send s1 (GET_search (Authorization s1) mood plimit market #
                 track_requests (Authorization s1) market tlimit pls))
         \<lparr>allocated := allocated s1 + 1, cache := Map_set (cache s1) (key_of mood market) a\<rparr>)"
    using assms(1,5,6) pls a_def by (rule fetch_search_ok)
  have failed: "?cb k = []"
    using assms(3,4,7) by (simp add: playlist_callback_def)
  have good: "?cb i = ?good i" if "i \<in> set (filter (\<lambda>i. i \<noteq> k) ?order)" for i
  proof -
    have "i < length pls" "i \<noteq> k"
      using that set_completion_order [of w "length pls"] by auto
    then show ?thesis
      using assms(3,8) by (simp add: playlist_callback_def forEach_items_filtered)
  qed
  have "foldl (playlist_callback w (Authorization s1) market tlimit pls) [] ?order
      = concat (map ?cb ?order)"
    by (simp add: foldl_playlist_callback)
  also have "\<dots> = concat (map ?cb (filter (\<lambda>i. i \<noteq> k) ?order))"
    using failed by (simp add: concat_map_skip)
  also have "map ?cb (filter (\<lambda>i. i \<noteq> k) ?order) = map ?good (filter (\<lambda>i. i \<noteq> k) ?order)"
    using good by (intro map_cong) simp_all
  finally have "elems a = uniqueTracks (concat (map ?good (filter (\<lambda>i. i \<noteq> k) ?order)))"
    by (simp add: a_def)
  then show ?thesis
    using run by (simp add: Map_get_Map_set)
qed

text \<open>The service behind the proxy collects them in the order of the playlists.\<close>

lemma isolated_part_003:
  assumes "Map_get (cache s) (key_of mood market) = None"
    and "playlists_items sd = Items pls"
    and "\<forall>i < length pls. truthy_id (pls ! i) = Some (pid i)"
    and "k < length pls"
    and "get_search w (GET_api_search mood plimit market) = Inr (Some sd)"
    and "get_tracks w k (GET_api_playlist_tracks (pid k) tlimit market) = Inl err"
    and "\<forall>i < length pls. i \<noteq> k \<longrightarrow>
           get_tracks w i (GET_api_playlist_tracks (pid i) tlimit market) = Inr (D i)"
  shows "\<exists>a s'. fetchSongsByMood_part_003 w mood market plimit tlimit s = (Inr a, s') \<and>
           elems a = uniqueTracks (concat (map
             (\<lambda>i. filtered_tracks (case items (D i) of None \<Rightarrow> [] | Some its \<Rightarrow> its))
             (filter (\<lambda>i. i \<noteq> k) [0..<length pls]))) \<and>
           Map_get (cache s') (key_of mood market) = Some a"
proof -
  let ?cb = "playlist_tracks_part_003 w market tlimit pls"
  let ?order = "[0..<length pls]"
  let ?good = "\<lambda>i. filtered_tracks (case items (D i) of None \<Rightarrow> [] | Some its \<Rightarrow> its)"
  define a where "a = \<lparr> ref = allocated s,
    elems = uniqueTracks (concat (map ?cb ?order)) \<rparr>"
  have run: "fetchSongsByMood_part_003 w mood market plimit tlimit s =
      (Inr a,
       (send s (GET_api_search mood plimit market # track_requests_part_003 market tlimit pls))
         \<lparr>allocated := allocated s + 1, cache := Map_set (cache s) (key_of mood market) a\<rparr>)"
    using assms(1,5,2) a_def by (rule fetch_part_003_ok)
  have failed: "?cb k = []"
    using assms(3,4,6) by (simp add: playlist_tracks_part_003_def)
  have good: "?cb i = ?good i" if "i \<in> set (filter (\<lambda>i. i \<noteq> k) ?order)" for i
  proof -
    have "i < length pls" "i \<noteq> k"
      using that by auto
    then show ?thesis
      using assms(3,7) by (simp add: playlist_tracks_part_003_def map_track_filtered)
  qed
  have "concat (map ?cb ?order) = concat (map ?cb (filter (\<lambda>i. i \<noteq> k) ?order))"
    using failed by (simp add: concat_map_skip)
  also have "map ?cb (filter (\<lambda>i. i \<noteq> k) ?order) = map ?good (filter (\<lambda>i. i \<noteq> k) ?order)"
    using good by (intro map_cong) simp_all
  finally have "elems a = uniqueTracks (concat (map ?good (filter (\<lambda>i. i \<noteq> k) ?order)))"
    by (simp add: a_def)
  then show ?thesis
    using run by (simp add: Map_get_Map_set)
qed

text \<open>
  C7. Let the search return playlists that all carry an id, let the request for the tracks of
  the playlist at position \<open>k\<close> fail and let all the others succeed. Then
  \<open>fetchSongsByMood\<close> resolves, and its array is the deduplication of the tracks of the
  other playlists, filtered as the specification says (every item with an identifier, except
  those whose lower-case title contains an entry of the block list): the failed playlist adds
  nothing and its failure is not passed on. The production service takes the playlists in
  the order in which their responses arrived, the service behind the proxy in the order of
  the search result. The array is stored in the cache.
\<close>

theorem failed_playlist_isolated:
  assumes "Map_get (cache s) (key_of mood market) = None"
    and "playlists_items sd = Items pls"
    and "\<forall>i < length pls. truthy_id (pls ! i) = Some (pid i)"
    and "k < length pls"
  shows
    "(authenticateSpotify w s = (Inr tok, s1) \<longrightarrow>
      get_search w (GET_search (Authorization s1) mood plimit market) = Inr (Some sd) \<longrightarrow>
      get_tracks w k (GET_playlist_tracks (Authorization s1) (pid k) tlimit market) = Inl err \<longrightarrow>
      (\<forall>i < length pls. i \<noteq> k \<longrightarrow>
         get_tracks w i (GET_playlist_tracks (Authorization s1) (pid i) tlimit market)
           = Inr (D i)) \<longrightarrow>
      (\<exists>a s'. fetchSongsByMood w mood market plimit tlimit s = (Inr a, s') \<and>
         elems a = uniqueTracks (concat (map
           (\<lambda>i. filtered_tracks (case items (D i) of None \<Rightarrow> [] | Some its \<Rightarrow> its))
           (filter (\<lambda>i. i \<noteq> k) (completion_order w (length pls))))) \<and>
         Map_get (cache s') (key_of mood market) = Some a)) \<and>
     (get_search w (GET_api_search mood plimit market) = Inr (Some sd) \<longrightarrow>
      get_tracks w k (GET_api_playlist_tracks (pid k) tlimit market) = Inl err' \<longrightarrow>
      (\<forall>i < length pls. i \<noteq> k \<longrightarrow>
         get_tracks w i (GET_api_playlist_tracks (pid i) tlimit market) = Inr (D i)) \<longrightarrow>
      (\<exists>a s'. fetchSongsByMood_part_003 w mood market plimit tlimit s = (Inr a, s') \<and>
         elems a = uniqueTracks (concat (map
           (\<lambda>i. filtered_tracks (case items (D i) of None \<Rightarrow> [] | Some its \<Rightarrow> its))
           (filter (\<lambda>i. i \<noteq> k) [0..<length pls]))) \<and>
         Map_get (cache s') (key_of mood market) = Some a))"
proof -
  note first = isolated_part_008 [OF assms, where w = w and tok = tok and ?s1.0 = s1
      and plimit = plimit and tlimit = tlimit and err = err and D = D]
  note third = isolated_part_003 [OF assms, where w = w and plimit = plimit
      and tlimit = tlimit and err = err' and D = D]
  show ?thesis
    using first third by blast
qed

lemma example_authenticate_partial:
  "authenticateSpotify w_partial initial_state = (Inr (Some ''tok''), example_authenticated)"
  by code_simp

lemma example_partial_order: "completion_order w_partial 3 = [2, 0, 1]"
  by code_simp

lemma example_partial_tracks:
  "uniqueTracks (concat (map
     (\<lambda>i. filtered_tracks (case items (partial_data i) of None \<Rightarrow> [] | Some its \<Rightarrow> its))
     (filter (\<lambda>i. i \<noteq> 1) [2, 0, 1])))
   = [example_Track ''t4'' ''Moonlight'' None, example_Track ''t2'' ''Sunshine'' None]"
  by code_simp

lemma example_partial_tracks_part_003:
  "uniqueTracks (concat (map
     (\<lambda>i. filtered_tracks (case items (partial_data i) of None \<Rightarrow> [] | Some its \<Rightarrow> its))
     (filter (\<lambda>i. i \<noteq> 1) [0..<3])))
   = [example_Track ''t2'' ''Sunshine'' None, example_Track ''t4'' ''Moonlight'' None]"
  by code_simp

theorem failed_playlist_isolated_witness:
  "Map_get (cache initial_state) (key_of ''calm'' ''US'') = None \<and>
   authenticateSpotify w_partial initial_state = (Inr (Some ''tok''), example_authenticated) \<and>
   map truthy_id [Some \<lparr> pl_id = Some ''p1'' \<rparr>, Some \<lparr> pl_id = Some ''p2'' \<rparr>,
                  Some \<lparr> pl_id = Some ''p3'' \<rparr>]
     = [Some (partial_ids 0), Some (partial_ids 1), Some (partial_ids 2)] \<and>
   get_tracks w_partial 0 (GET_playlist_tracks ''Bearer tok'' ''p1'' 10 ''US'') = Inr (partial_data 0) \<and>
   get_tracks w_partial 2 (GET_playlist_tracks ''Bearer tok'' ''p3'' 10 ''US'') = Inr (partial_data 2) \<and>
   isl (get_tracks w_partial 1 (GET_playlist_tracks ''Bearer tok'' ''p2'' 10 ''US'')) \<and>
   (\<exists>a s'. fetchSongsByMood w_partial ''calm'' ''US'' 5 10 initial_state = (Inr a, s') \<and>
      elems a = [example_Track ''t4'' ''Moonlight'' None, example_Track ''t2'' ''Sunshine'' None] \<and>
      Map_get (cache s') (key_of ''calm'' ''US'') = Some a) \<and>
   get_tracks w_partial 0 (GET_api_playlist_tracks ''p1'' 10 ''US'') = Inr (partial_data 0) \<and>
   get_tracks w_partial 2 (GET_api_playlist_tracks ''p3'' 10 ''US'') = Inr (partial_data 2) \<and>
   isl (get_tracks w_partial 1 (GET_api_playlist_tracks ''p2'' 10 ''US'')) \<and>
   (\<exists>a s'. fetchSongsByMood_part_003 w_partial ''calm'' ''US'' 5 10 initial_state = (Inr a, s') \<and>
      elems a = [example_Track ''t2'' ''Sunshine'' None, example_Track ''t4'' ''Moonlight'' None] \<and>
      Map_get (cache s') (key_of ''calm'' ''US'') = Some a)"
proof -
  let ?pls = "[Some \<lparr> pl_id = Some ''p1'' \<rparr>, Some \<lparr> pl_id = Some ''p2'' \<rparr>,
               Some \<lparr> pl_id = Some ''p3'' \<rparr>]"
  let ?sd = "\<lparr> playlists_items = Items ?pls \<rparr>"
  let ?err = "AxiosError ''Request failed with status code 404'' None"
  let ?good = "\<lambda>i. filtered_tracks (case items (partial_data i) of None \<Rightarrow> [] | Some its \<Rightarrow> its)"
  have miss: "Map_get (cache initial_state) (key_of ''calm'' ''US'') = None"
    by (simp add: initial_state_def Map_get_def)
  have pls: "playlists_items ?sd = Items ?pls"
    by simp
  have ids: "\<forall>i < length ?pls. truthy_id (?pls ! i) = Some (partial_ids i)"
    by (auto simp: partial_ids_def less_Suc_eq)
  have k: "1 < length ?pls"
    by simp
  have len: "length ?pls = 3"
    by simp
  have search: "get_search w_partial
      (GET_search (Authorization example_authenticated) ''calm'' 5 ''US'') = Inr (Some ?sd)"
    by (simp add: w_partial_def)
  have failed: "get_tracks w_partial 1
      (GET_playlist_tracks (Authorization example_authenticated) (partial_ids 1) 10 ''US'')
        = Inl ?err"
    by (simp add: w_partial_def)
  have ok: "\<forall>i < length ?pls. i \<noteq> 1 \<longrightarrow> get_tracks w_partial i
      (GET_playlist_tracks (Authorization example_authenticated) (partial_ids i) 10 ''US'')
        = Inr (partial_data i)"
    by (auto simp: w_partial_def partial_data_def less_Suc_eq)
  have search3: "get_search w_partial (GET_api_search ''calm'' 5 ''US'') = Inr (Some ?sd)"
    by (simp add: w_partial_def)
  have failed3: "get_tracks w_partial 1 (GET_api_playlist_tracks (partial_ids 1) 10 ''US'')
      = Inl ?err"
    by (simp add: w_partial_def)
  have ok3: "\<forall>i < length ?pls. i \<noteq> 1 \<longrightarrow> get_tracks w_partial i
      (GET_api_playlist_tracks (partial_ids i) 10 ''US'') = Inr (partial_data i)"
    by (auto simp: w_partial_def partial_data_def less_Suc_eq)
  note both = failed_playlist_isolated [OF miss pls ids k, where w = w_partial
      and tok = "Some ''tok''" and ?s1.0 = example_authenticated and plimit = 5 and tlimit = 10
      and err = ?err and D = partial_data and err' = ?err]
  obtain a s' where run: "fetchSongsByMood w_partial ''calm'' ''US'' 5 10 initial_state = (Inr a, s')"
    and e: "elems a = uniqueTracks (concat (map ?good
       (filter (\<lambda>i. i \<noteq> 1) (completion_order w_partial (length ?pls)))))"
    and c: "Map_get (cache s') (key_of ''calm'' ''US'') = Some a"
    using both example_authenticate_partial search failed ok by blast
  obtain a3 s3 where run3:
      "fetchSongsByMood_part_003 w_partial ''calm'' ''US'' 5 10 initial_state = (Inr a3, s3)"
    and e3: "elems a3 = uniqueTracks (concat (map ?good
       (filter (\<lambda>i. i \<noteq> 1) [0..<length ?pls])))"
    and c3: "Map_get (cache s3) (key_of ''calm'' ''US'') = Some a3"
    using both search3 failed3 ok3 by blast
  have r: "elems a = [example_Track ''t4'' ''Moonlight'' None, example_Track ''t2'' ''Sunshine'' None]"
    by (simp only: e len example_partial_order example_partial_tracks)
  have r3: "elems a3 = [example_Track ''t2'' ''Sunshine'' None, example_Track ''t4'' ''Moonlight'' None]"
    by (simp only: e3 len example_partial_tracks_part_003)
  have first: "\<exists>a s'. fetchSongsByMood w_partial ''calm'' ''US'' 5 10 initial_state = (Inr a, s') \<and>
      elems a = [example_Track ''t4'' ''Moonlight'' None, example_Track ''t2'' ''Sunshine'' None] \<and>
      Map_get (cache s') (key_of ''calm'' ''US'') = Some a"
    using run r c by blast
  have third: "\<exists>a s'. fetchSongsByMood_part_003 w_partial ''calm'' ''US'' 5 10 initial_state = (Inr a, s') \<and>
      elems a = [example_Track ''t2'' ''Sunshine'' None, example_Track ''t4'' ''Moonlight'' None] \<and>
      Map_get (cache s') (key_of ''calm'' ''US'') = Some a"
    using run3 r3 c3 by blast
  have ids': "map truthy_id ?pls = [Some (partial_ids 0), Some (partial_ids 1), Some (partial_ids 2)]"
    by (simp add: partial_ids_def)
  have answers: "get_tracks w_partial 0 (GET_playlist_tracks ''Bearer tok'' ''p1'' 10 ''US'')
      = Inr (partial_data 0)"
    "get_tracks w_partial 2 (GET_playlist_tracks ''Bearer tok'' ''p3'' 10 ''US'')
      = Inr (partial_data 2)"
    "isl (get_tracks w_partial 1 (GET_playlist_tracks ''Bearer tok'' ''p2'' 10 ''US''))"
    "get_tracks w_partial 0 (GET_api_playlist_tracks ''p1'' 10 ''US'') = Inr (partial_data 0)"
    "get_tracks w_partial 2 (GET_api_playlist_tracks ''p3'' 10 ''US'') = Inr (partial_data 2)"
    "isl (get_tracks w_partial 1 (GET_api_playlist_tracks ''p2'' 10 ''US''))"
    by (simp_all add: w_partial_def partial_data_def)
  show ?thesis
    using miss example_authenticate_partial ids' answers first third by blast
qed

text \<open>
  C8. When the search response has no body, no array of playlists, or an empty one, the call
  resolves with an empty array, and the search is the last request it sends: no playlist is
  fetched.
\<close>

theorem no_playlists_empty_result:
  assumes "Map_get (cache s) (key_of mood market) = None"
    and "authenticateSpotify w s = (Inr tok, s1)"
    and "get_search w (GET_search (Authorization s1) mood plimit market) = Inr body"
    and "body = None \<or>
         (\<exists>sd. body = Some sd \<and>
            (playlists_items sd = No_items \<or> (\<exists>b. playlists_items sd = Not_an_array b) \<or>
             playlists_items sd = Items []))"
  shows "\<exists>a s'. fetchSongsByMood w mood market plimit tlimit s = (Inr a, s') \<and>
           elems a = [] \<and>
           network s' = network s1 @ [GET_search (Authorization s1) mood plimit market]"
proof (cases body)
  case None
  have "fetchSongsByMood w mood market plimit tlimit s =
      (Inr \<lparr> ref = allocated s1, elems = [] \<rparr>,
       (send s1 [GET_search (Authorization s1) mood plimit market])
         \<lparr>allocated := allocated s1 + 1\<rparr>)"
    using assms(1,2,3) None by (simp add: fetch_search_null)
  then show ?thesis
    by (simp add: send_def)
next
  case (Some sd)
  define a where "a = \<lparr> ref = allocated s1,
    elems = uniqueTracks (foldl (playlist_callback w (Authorization s1) market tlimit []) []
              (completion_order w (length ([] :: playlist option list)))) \<rparr>"
  have pls: "[] = (case playlists_items sd of Items ps \<Rightarrow> ps | No_items \<Rightarrow> []
      | Not_an_array b \<Rightarrow> [])"
    using assms(4) Some by auto
  have search: "get_search w (GET_search (Authorization s1) mood plimit market) = Inr (Some sd)"
    using assms(3) Some by simp
  have run: "fetchSongsByMood w mood market plimit tlimit s =
      (Inr a,
       (send s1 (GET_search (Authorization s1) mood plimit market #
                 track_requests (Authorization s1) market tlimit []))
         \<lparr>allocated := allocated s1 + 1, cache := Map_set (cache s1) (key_of mood market) a\<rparr>)"
    using assms(1,2) search pls a_def by (rule fetch_search_ok)
  have "elems a = []"
    by (simp add: a_def completion_order_def uniqueTracks_def new_Map_def Map_values_def)
  then show ?thesis
    using run by (simp add: send_def track_requests_def)
qed

lemma example_authenticate_no_playlists:
  "authenticateSpotify w_no_playlists initial_state = (Inr (Some ''tok''), example_authenticated)"
  by code_simp

theorem no_playlists_empty_result_witness:
  "Map_get (cache initial_state) (key_of ''happy'' ''US'') = None \<and>
   authenticateSpotify w_no_playlists initial_state = (Inr (Some ''tok''), example_authenticated) \<and>
   get_search w_no_playlists (GET_search (Authorization example_authenticated) ''happy'' 5 ''US'')
     = Inr (Some \<lparr> playlists_items = No_items \<rparr>) \<and>
   (\<exists>a s'. fetchSongsByMood w_no_playlists ''happy'' ''US'' 5 10 initial_state = (Inr a, s') \<and>
      elems a = [] \<and>
      network s' = network example_authenticated @
        [GET_search (Authorization example_authenticated) ''happy'' 5 ''US''])"
proof -
  have miss: "Map_get (cache initial_state) (key_of ''happy'' ''US'') = None"
    by (simp add: initial_state_def Map_get_def)
  have search: "get_search w_no_playlists
      (GET_search (Authorization example_authenticated) ''happy'' 5 ''US'')
        = Inr (Some \<lparr> playlists_items = No_items \<rparr>)"
    by (simp add: w_no_playlists_def)
  have none: "Some \<lparr> playlists_items = No_items \<rparr> = None \<or>
      (\<exists>sd. Some \<lparr> playlists_items = No_items \<rparr> = Some sd \<and>
         (playlists_items sd = No_items \<or> (\<exists>b. playlists_items sd = Not_an_array b) \<or>
          playlists_items sd = Items []))"
    by simp
  show ?thesis
    using no_playlists_empty_result [OF miss example_authenticate_no_playlists search none, of 10]
      miss example_authenticate_no_playlists search
    by blast
qed

section \<open>The token caches\<close>

text \<open>
  C9, as the code has it. \<open>authenticateSpotify\<close> returns the stored token without a
  request when one is stored and the clock is before its expiry minus 60 seconds; otherwise
  it sends one request, and either stores the new token with the expiry
  \<open>now + expires_in * 1000\<close> and returns it, or throws and sends nothing more.
  \<open>getAccessToken\<close> applies the 60 seconds when it stores: it returns the stored token
  while the clock is before the stored expiry, and a new token is stored with the expiry
  \<open>now + (expires_in - 60) * 1000\<close>.
\<close>

theorem token_cache_behaviour:
  "(truthy (accessToken s) \<and> Date_now_check w < tokenExpiresAt s - 60 * 1000 \<longrightarrow>
      authenticateSpotify w s = (Inr (accessToken s), s)) \<and>
   (\<not> (truthy (accessToken s) \<and> Date_now_check w < tokenExpiresAt s - 60 * 1000) \<longrightarrow>
    post_auth w = Inr data \<longrightarrow>
      authenticateSpotify w s =
        (Inr (Some (access_token data)),
         s\<lparr>network := network s @ [POST_spotify_auth],
           accessToken := Some (access_token data),
           tokenExpiresAt := Date_now_store w + expires_in data * 1000\<rparr>)) \<and>
   (\<not> (truthy (accessToken s) \<and> Date_now_check w < tokenExpiresAt s - 60 * 1000) \<longrightarrow>
    post_auth w = Inl err \<longrightarrow>
      authenticateSpotify w s =
        (Inl (Error ''Spotify authentication failed''),
         s\<lparr>network := network s @ [POST_spotify_auth]\<rparr>)) \<and>
   (truthy (tokenCache_accessToken p) \<and> Date_now_check w < tokenCache_expiresAt p \<longrightarrow>
      getAccessToken w p = (Inr (tokenCache_accessToken p), p)) \<and>
   (\<not> (truthy (tokenCache_accessToken p) \<and> Date_now_check w < tokenCache_expiresAt p) \<longrightarrow>
    post_auth w = Inr data \<longrightarrow>
      getAccessToken w p =
        (Inr (Some (access_token data)),
         p\<lparr>token_requests := token_requests p + 1,
           tokenCache_accessToken := Some (access_token data),
           tokenCache_expiresAt := Date_now_store w + (expires_in data - 60) * 1000\<rparr>)) \<and>
   (\<not> (truthy (tokenCache_accessToken p) \<and> Date_now_check w < tokenCache_expiresAt p) \<longrightarrow>
    post_auth w = Inl err \<longrightarrow>
      getAccessToken w p =
        (Inl (Error ''Failed to retrieve Spotify access token.''),
         p\<lparr>token_requests := token_requests p + 1\<rparr>))"
  by (simp add: authenticateSpotify_def token_valid_def getAccessToken_def send_def Let_def)

theorem token_cache_behaviour_witness:
  "truthy (accessToken (example_state ''happy'' ''US'')) \<and>
   Date_now_check w_example < tokenExpiresAt (example_state ''happy'' ''US'') - 60 * 1000 \<and>
   authenticateSpotify w_example (example_state ''happy'' ''US'') =
     (Inr (Some ''tok''), example_state ''happy'' ''US'') \<and>
   \<not> truthy (accessToken initial_state) \<and>
   post_auth w_example = Inr \<lparr> access_token = ''tok'', expires_in = 3600 \<rparr> \<and>
   authenticateSpotify w_example initial_state = (Inr (Some ''tok''), example_authenticated) \<and>
   isl (post_auth w_auth_down) \<and>
   authenticateSpotify w_auth_down initial_state =
     (Inl (Error ''Spotify authentication failed''),
      initial_state\<lparr>network := [POST_spotify_auth]\<rparr>) \<and>
   truthy (tokenCache_accessToken proxy_example) \<and>
   Date_now_check w_inside_buffer < tokenCache_expiresAt proxy_example \<and>
   getAccessToken w_inside_buffer proxy_example = (Inr (Some ''old''), proxy_example) \<and>
   \<not> truthy (tokenCache_accessToken proxy_initial) \<and>
   getAccessToken w_example proxy_initial =
     (Inr (Some ''tok''),
      \<lparr> tokenCache_accessToken = Some ''tok'', tokenCache_expiresAt = 3541200,
        token_requests = 1 \<rparr>) \<and>
   getAccessToken w_auth_down proxy_initial =
     (Inl (Error ''Failed to retrieve Spotify access token.''),
      proxy_initial\<lparr>token_requests := 1\<rparr>)"
proof -
  let ?data = "\<lparr> access_token = ''tok'', expires_in = 3600 \<rparr>"
  let ?err = "AxiosError ''Request failed with status code 500''
       (Some \<lparr> status = 500, data_message = Some ''Spotify credentials not configured'' \<rparr>)"
  have t1: "truthy (accessToken (example_state ''happy'' ''US''))"
    and t2: "Date_now_check w_example < tokenExpiresAt (example_state ''happy'' ''US'') - 60 * 1000"
    by (simp_all add: example_state_def w_example_def)
  have n1: "\<not> truthy (accessToken initial_state)"
    by (simp add: initial_state_def)
  have up: "post_auth w_example = Inr ?data"
    by (simp add: w_example_def)
  have down: "post_auth w_auth_down = Inl ?err"
    by (simp add: w_auth_down_def)
  have t3: "truthy (tokenCache_accessToken proxy_example)"
    and t4: "Date_now_check w_inside_buffer < tokenCache_expiresAt proxy_example"
    by (simp_all add: proxy_example_def w_inside_buffer_def)
  have n2: "\<not> truthy (tokenCache_accessToken proxy_initial)"
    by (simp add: proxy_initial_def)
  note a = token_cache_behaviour [of "example_state ''happy'' ''US''" w_example ?data ?err proxy_example]
  note b = token_cache_behaviour [of initial_state w_example ?data ?err proxy_initial]
  note c = token_cache_behaviour [of initial_state w_auth_down ?data ?err proxy_initial]
  note d = token_cache_behaviour [of initial_state w_inside_buffer ?data ?err proxy_example]
  have r1: "authenticateSpotify w_example (example_state ''happy'' ''US'') =
      (Inr (Some ''tok''), example_state ''happy'' ''US'')"
    using a t1 t2 by (simp add: example_state_def)
  have r2: "authenticateSpotify w_example initial_state = (Inr (Some ''tok''), example_authenticated)"
    using b n1 up by (simp add: initial_state_def example_authenticated_def w_example_def)
  have r3: "authenticateSpotify w_auth_down initial_state =
      (Inl (Error ''Spotify authentication failed''), initial_state\<lparr>network := [POST_spotify_auth]\<rparr>)"
    using c n1 down by (simp add: initial_state_def)
  have r4: "getAccessToken w_inside_buffer proxy_example = (Inr (Some ''old''), proxy_example)"
    using d t3 t4 by (simp add: proxy_example_def)
  have r5: "getAccessToken w_example proxy_initial =
      (Inr (Some ''tok''),
       \<lparr> tokenCache_accessToken = Some ''tok'', tokenCache_expiresAt = 3541200,
         token_requests = 1 \<rparr>)"
    using b n2 up by (simp add: proxy_initial_def w_example_def)
  have r6: "getAccessToken w_auth_down proxy_initial =
      (Inl (Error ''Failed to retrieve Spotify access token.''), proxy_initial\<lparr>token_requests := 1\<rparr>)"
    using c n2 down by (simp add: proxy_initial_def)
  show ?thesis
    using t1 t2 r1 n1 up r2 down r3 t3 t4 r4 n2 r5 r6 by simp
qed

text \<open>
  C9 as stated fails for \<open>getAccessToken\<close>. With a stored token that expires at 100000 and
  the clock at 50000, which is not before the expiry minus 60 seconds, the stored token is
  returned and no request is sent; and a token that is valid for 3600 seconds, obtained at
  1200, is stored with an expiry other than \<open>1200 + 3600 * 1000\<close>.
\<close>

theorem token_cache_buffer_counterexample:
  "truthy (tokenCache_accessToken proxy_example) \<and>
   \<not> Date_now_check w_inside_buffer < tokenCache_expiresAt proxy_example - 60 * 1000 \<and>
   getAccessToken w_inside_buffer proxy_example = (Inr (Some ''old''), proxy_example) \<and>
   post_auth w_example = Inr \<lparr> access_token = ''tok'', expires_in = 3600 \<rparr> \<and>
   Date_now_store w_example = 1200 \<and>
   tokenCache_expiresAt (snd (getAccessToken w_example proxy_initial)) = 3541200 \<and>
   tokenCache_expiresAt (snd (getAccessToken w_example proxy_initial)) \<noteq> 1200 + 3600 * 1000"
  by (simp add: getAccessToken_def proxy_example_def proxy_initial_def w_inside_buffer_def
      w_example_def)


end
